theory Spec2Isabelle
  imports Complex_Main "HOL-Library.Log_Nat"
begin

section \<open>Viseme resolver (src/components/AIAvatar.tsx, lines 6-42 and 195-201)\<close>

text \<open>
  The type \<open>Viseme\<close> of the source is a union of nine string literals; the constructors
  carry a \<open>V\<close> prefix. All nine are non-empty strings, hence truthy in JavaScript.
\<close>

datatype Viseme = VA | VB | VC | VD | VE | VF | VG | VH | VX

text \<open>
  A string of the language is a sequence of UTF-16 code units, numbers below 65536;
  \<open>units\<close> turns a literal of ASCII characters into its code units.
\<close>

type_synonym code_unit = nat

definition units :: "string \<Rightarrow> code_unit list" where
  "units s = map of_char s"

text \<open>
  \<open>VISEME_MAP\<close> is an object literal with 31 keys, each a string of one code unit, kept
  here in source order as an association list.
\<close>

definition VISEME_MAP :: "(code_unit list \<times> Viseme) list" where
  "VISEME_MAP =
    [(units ''a'', VA), (units ''b'', VB), (units ''c'', VC), (units ''d'', VD),
     (units ''e'', VE), (units ''f'', VF), (units ''g'', VG), (units ''h'', VH),
     (units ''i'', VC), (units ''j'', VH), (units ''k'', VG), (units ''l'', VC),
     (units ''m'', VB), (units ''n'', VC), (units ''o'', VH), (units ''p'', VB),
     (units ''q'', VG), (units ''r'', VC), (units ''s'', VC), (units ''t'', VC),
     (units ''u'', VH), (units ''v'', VF), (units ''w'', VH), (units ''x'', VC),
     (units ''y'', VC), (units ''z'', VC), (units '' '', VX), (units ''.'', VX),
     (units '','', VX), (units ''?'', VD), (units ''!'', VD)]"

definition lowercase_letters :: string where
  "lowercase_letters = ''abcdefghijklmnopqrstuvwxyz''"

definition uppercase_letters :: string where
  "uppercase_letters = ''ABCDEFGHIJKLMNOPQRSTUVWXYZ''"

definition table_keys :: string where
  "table_keys = lowercase_letters @ '' .,?!''"

text \<open>
  \<open>String.prototype.toLowerCase\<close> is a built-in of the language; on a string of one code
  unit it follows the lowercase mapping of the Unicode character database (here Unicode
  15.0) for the Basic Multilingual Plane. The mapping is kept as ranges
  \<open>(lo, hi, step, target)\<close>: every \<open>step\<close>-th code unit from \<open>lo\<close> to \<open>hi\<close> has a lowercase
  form, and that of \<open>lo\<close> is \<open>target\<close>, the others following at the same distance. The first
  range are the capitals A to Z; the Kelvin sign \<open>0x212A\<close> maps to the letter k. One code
  unit, \<open>0x0130\<close>, has a lowercase form of two code units. Every other code unit, the
  surrogates included, is its own lowercase form.
\<close>

definition lower_ranges :: "(code_unit \<times> code_unit \<times> nat \<times> code_unit) list" where
  "lower_ranges =
     [(0x0041, 0x005A, 1, 0x0061), (0x00C0, 0x00D6, 1, 0x00E0), (0x00D8, 0x00DE, 1, 0x00F8),
      (0x0100, 0x012E, 2, 0x0101), (0x0132, 0x0136, 2, 0x0133), (0x0139, 0x0147, 2, 0x013A),
      (0x014A, 0x0176, 2, 0x014B), (0x0178, 0x0178, 1, 0x00FF), (0x0179, 0x017D, 2, 0x017A),
      (0x0181, 0x0181, 1, 0x0253), (0x0182, 0x0184, 2, 0x0183), (0x0186, 0x0186, 1, 0x0254),
      (0x0187, 0x0187, 1, 0x0188), (0x0189, 0x018A, 1, 0x0256), (0x018B, 0x018B, 1, 0x018C),
      (0x018E, 0x018E, 1, 0x01DD), (0x018F, 0x018F, 1, 0x0259), (0x0190, 0x0190, 1, 0x025B),
      (0x0191, 0x0191, 1, 0x0192), (0x0193, 0x0193, 1, 0x0260), (0x0194, 0x0194, 1, 0x0263),
      (0x0196, 0x0196, 1, 0x0269), (0x0197, 0x0197, 1, 0x0268), (0x0198, 0x0198, 1, 0x0199),
      (0x019C, 0x019C, 1, 0x026F), (0x019D, 0x019D, 1, 0x0272), (0x019F, 0x019F, 1, 0x0275),
      (0x01A0, 0x01A4, 2, 0x01A1), (0x01A6, 0x01A6, 1, 0x0280), (0x01A7, 0x01A7, 1, 0x01A8),
      (0x01A9, 0x01A9, 1, 0x0283), (0x01AC, 0x01AC, 1, 0x01AD), (0x01AE, 0x01AE, 1, 0x0288),
      (0x01AF, 0x01AF, 1, 0x01B0), (0x01B1, 0x01B2, 1, 0x028A), (0x01B3, 0x01B5, 2, 0x01B4),
      (0x01B7, 0x01B7, 1, 0x0292), (0x01B8, 0x01B8, 1, 0x01B9), (0x01BC, 0x01BC, 1, 0x01BD),
      (0x01C4, 0x01C4, 1, 0x01C6), (0x01C5, 0x01C5, 1, 0x01C6), (0x01C7, 0x01C7, 1, 0x01C9),
      (0x01C8, 0x01C8, 1, 0x01C9), (0x01CA, 0x01CA, 1, 0x01CC), (0x01CB, 0x01DB, 2, 0x01CC),
      (0x01DE, 0x01EE, 2, 0x01DF), (0x01F1, 0x01F1, 1, 0x01F3), (0x01F2, 0x01F4, 2, 0x01F3),
      (0x01F6, 0x01F6, 1, 0x0195), (0x01F7, 0x01F7, 1, 0x01BF), (0x01F8, 0x021E, 2, 0x01F9),
      (0x0220, 0x0220, 1, 0x019E), (0x0222, 0x0232, 2, 0x0223), (0x023A, 0x023A, 1, 0x2C65),
      (0x023B, 0x023B, 1, 0x023C), (0x023D, 0x023D, 1, 0x019A), (0x023E, 0x023E, 1, 0x2C66),
      (0x0241, 0x0241, 1, 0x0242), (0x0243, 0x0243, 1, 0x0180), (0x0244, 0x0244, 1, 0x0289),
      (0x0245, 0x0245, 1, 0x028C), (0x0246, 0x024E, 2, 0x0247), (0x0370, 0x0372, 2, 0x0371),
      (0x0376, 0x0376, 1, 0x0377), (0x037F, 0x037F, 1, 0x03F3), (0x0386, 0x0386, 1, 0x03AC),
      (0x0388, 0x038A, 1, 0x03AD), (0x038C, 0x038C, 1, 0x03CC), (0x038E, 0x038F, 1, 0x03CD),
      (0x0391, 0x03A1, 1, 0x03B1), (0x03A3, 0x03AB, 1, 0x03C3), (0x03CF, 0x03CF, 1, 0x03D7),
      (0x03D8, 0x03EE, 2, 0x03D9), (0x03F4, 0x03F4, 1, 0x03B8), (0x03F7, 0x03F7, 1, 0x03F8),
      (0x03F9, 0x03F9, 1, 0x03F2), (0x03FA, 0x03FA, 1, 0x03FB), (0x03FD, 0x03FF, 1, 0x037B),
      (0x0400, 0x040F, 1, 0x0450), (0x0410, 0x042F, 1, 0x0430), (0x0460, 0x0480, 2, 0x0461),
      (0x048A, 0x04BE, 2, 0x048B), (0x04C0, 0x04C0, 1, 0x04CF), (0x04C1, 0x04CD, 2, 0x04C2),
      (0x04D0, 0x052E, 2, 0x04D1), (0x0531, 0x0556, 1, 0x0561), (0x10A0, 0x10C5, 1, 0x2D00),
      (0x10C7, 0x10C7, 1, 0x2D27), (0x10CD, 0x10CD, 1, 0x2D2D), (0x13A0, 0x13EF, 1, 0xAB70),
      (0x13F0, 0x13F5, 1, 0x13F8), (0x1C90, 0x1CBA, 1, 0x10D0), (0x1CBD, 0x1CBF, 1, 0x10FD),
      (0x1E00, 0x1E94, 2, 0x1E01), (0x1E9E, 0x1E9E, 1, 0x00DF), (0x1EA0, 0x1EFE, 2, 0x1EA1),
      (0x1F08, 0x1F0F, 1, 0x1F00), (0x1F18, 0x1F1D, 1, 0x1F10), (0x1F28, 0x1F2F, 1, 0x1F20),
      (0x1F38, 0x1F3F, 1, 0x1F30), (0x1F48, 0x1F4D, 1, 0x1F40), (0x1F59, 0x1F5F, 2, 0x1F51),
      (0x1F68, 0x1F6F, 1, 0x1F60), (0x1F88, 0x1F8F, 1, 0x1F80), (0x1F98, 0x1F9F, 1, 0x1F90),
      (0x1FA8, 0x1FAF, 1, 0x1FA0), (0x1FB8, 0x1FB9, 1, 0x1FB0), (0x1FBA, 0x1FBB, 1, 0x1F70),
      (0x1FBC, 0x1FBC, 1, 0x1FB3), (0x1FC8, 0x1FCB, 1, 0x1F72), (0x1FCC, 0x1FCC, 1, 0x1FC3),
      (0x1FD8, 0x1FD9, 1, 0x1FD0), (0x1FDA, 0x1FDB, 1, 0x1F76), (0x1FE8, 0x1FE9, 1, 0x1FE0),
      (0x1FEA, 0x1FEB, 1, 0x1F7A), (0x1FEC, 0x1FEC, 1, 0x1FE5), (0x1FF8, 0x1FF9, 1, 0x1F78),
      (0x1FFA, 0x1FFB, 1, 0x1F7C), (0x1FFC, 0x1FFC, 1, 0x1FF3), (0x2126, 0x2126, 1, 0x03C9),
      (0x212A, 0x212A, 1, 0x006B), (0x212B, 0x212B, 1, 0x00E5), (0x2132, 0x2132, 1, 0x214E),
      (0x2160, 0x216F, 1, 0x2170), (0x2183, 0x2183, 1, 0x2184), (0x24B6, 0x24CF, 1, 0x24D0),
      (0x2C00, 0x2C2F, 1, 0x2C30), (0x2C60, 0x2C60, 1, 0x2C61), (0x2C62, 0x2C62, 1, 0x026B),
      (0x2C63, 0x2C63, 1, 0x1D7D), (0x2C64, 0x2C64, 1, 0x027D), (0x2C67, 0x2C6B, 2, 0x2C68),
      (0x2C6D, 0x2C6D, 1, 0x0251), (0x2C6E, 0x2C6E, 1, 0x0271), (0x2C6F, 0x2C6F, 1, 0x0250),
      (0x2C70, 0x2C70, 1, 0x0252), (0x2C72, 0x2C72, 1, 0x2C73), (0x2C75, 0x2C75, 1, 0x2C76),
      (0x2C7E, 0x2C7F, 1, 0x023F), (0x2C80, 0x2CE2, 2, 0x2C81), (0x2CEB, 0x2CED, 2, 0x2CEC),
      (0x2CF2, 0x2CF2, 1, 0x2CF3), (0xA640, 0xA66C, 2, 0xA641), (0xA680, 0xA69A, 2, 0xA681),
      (0xA722, 0xA72E, 2, 0xA723), (0xA732, 0xA76E, 2, 0xA733), (0xA779, 0xA77B, 2, 0xA77A),
      (0xA77D, 0xA77D, 1, 0x1D79), (0xA77E, 0xA786, 2, 0xA77F), (0xA78B, 0xA78B, 1, 0xA78C),
      (0xA78D, 0xA78D, 1, 0x0265), (0xA790, 0xA792, 2, 0xA791), (0xA796, 0xA7A8, 2, 0xA797),
      (0xA7AA, 0xA7AA, 1, 0x0266), (0xA7AB, 0xA7AB, 1, 0x025C), (0xA7AC, 0xA7AC, 1, 0x0261),
      (0xA7AD, 0xA7AD, 1, 0x026C), (0xA7AE, 0xA7AE, 1, 0x026A), (0xA7B0, 0xA7B0, 1, 0x029E),
      (0xA7B1, 0xA7B1, 1, 0x0287), (0xA7B2, 0xA7B2, 1, 0x029D), (0xA7B3, 0xA7B3, 1, 0xAB53),
      (0xA7B4, 0xA7C2, 2, 0xA7B5), (0xA7C4, 0xA7C4, 1, 0xA794), (0xA7C5, 0xA7C5, 1, 0x0282),
      (0xA7C6, 0xA7C6, 1, 0x1D8E), (0xA7C7, 0xA7C9, 2, 0xA7C8), (0xA7D0, 0xA7D0, 1, 0xA7D1),
      (0xA7D6, 0xA7D8, 2, 0xA7D7), (0xA7F5, 0xA7F5, 1, 0xA7F6), (0xFF21, 0xFF3A, 1, 0xFF41)]"

definition in_range :: "code_unit \<Rightarrow> code_unit \<times> code_unit \<times> nat \<times> code_unit \<Rightarrow> bool" where
  "in_range c r = (case r of (lo, hi, step, target) \<Rightarrow> lo \<le> c \<and> c \<le> hi \<and> (c - lo) mod step = 0)"

definition toLowerCase :: "code_unit \<Rightarrow> code_unit list" where
  "toLowerCase c =
     (if c = 0x0130 then [0x0069, 0x0307]
      else case find (in_range c) lower_ranges of
        Some (lo, hi, step, target) \<Rightarrow> [target + (c - lo)]
      | None \<Rightarrow> [c])"

text \<open>
  \<open>VISEME_MAP[firstChar] || 'X'\<close>: a missing key reads as undefined, which is falsy. The
  properties that the object inherits have names of more than two code units, so they are
  never read here.
\<close>

definition lookup_viseme :: "code_unit list \<Rightarrow> Viseme" where
  "lookup_viseme k = (case map_of VISEME_MAP k of Some v \<Rightarrow> v | None \<Rightarrow> VX)"

text \<open>Lines 197 and 199: the first code unit is lowercased, then looked up.\<close>

definition resolve :: "code_unit \<Rightarrow> Viseme" where
  "resolve c = lookup_viseme (toLowerCase c)"

definition key_strings :: "code_unit list list" where
  "key_strings = map (\<lambda>k. [k]) (units table_keys)"

section \<open>Speech animator (src/components/AIAvatar.tsx, lines 60-71 and 160-236)\<close>

text \<open>
  The component keeps \<open>currentViseme\<close> and \<open>chunkIndex\<close> as state, receives \<open>textChunks\<close>
  and \<open>isSpeaking\<close> as props, and registers one timeout through \<open>visemeTimerRef\<close>. The
  field \<open>visemeTimer\<close> is the pending timeout: the time at which it is due, and the two
  values its callback closes over (\<open>chunkIndex\<close> and \<open>textChunks.length\<close> of the render
  that scheduled it). The field \<open>clock\<close> counts milliseconds. A state of the model is the
  component after all effects of a commit have run.
\<close>

record avatar =
  textChunks :: "code_unit list list"
  isSpeaking :: bool
  currentViseme :: Viseme
  chunkIndex :: nat
  visemeTimer :: "(nat \<times> nat \<times> nat) option"
  clock :: nat

definition nextChunkDelay :: nat where
  "nextChunkDelay = 100"

text \<open>Lines 161-167: the effect with dependency \<open>isSpeaking\<close>.\<close>

definition isSpeaking_effect :: "avatar \<Rightarrow> avatar" where
  "isSpeaking_effect s = (if \<not> isSpeaking s then s\<lparr>currentViseme := VX\<rparr> else s)"

text \<open>
  Lines 190-218: \<open>processChunks\<close>. An empty chunk is falsy and leaves the mouth as it is;
  the timeout is scheduled in both cases.
\<close>

definition processChunks :: "avatar \<Rightarrow> avatar" where
  "processChunks s =
     (if chunkIndex s < length (textChunks s) then
        let chunk = textChunks s ! chunkIndex s;
            s1 = (case chunk of [] \<Rightarrow> s | firstChar # _ \<Rightarrow> s\<lparr>currentViseme := resolve firstChar\<rparr>)
        in s1\<lparr>visemeTimer := Some (clock s + nextChunkDelay, chunkIndex s, length (textChunks s))\<rparr>
      else s)"

text \<open>
  Lines 170-226: the effect with dependencies \<open>textChunks\<close>, \<open>chunkIndex\<close>, \<open>isSpeaking\<close>.
  Its cleanup and its first statement both clear the timeout, so a run of the effect always
  starts without a pending timeout.
\<close>

definition viseme_effect :: "avatar \<Rightarrow> avatar" where
  "viseme_effect s =
     (let s0 = s\<lparr>visemeTimer := None\<rparr>
      in if \<not> isSpeaking s0 \<or> length (textChunks s0) = 0 then s0\<lparr>currentViseme := VX\<rparr>
         else processChunks s0)"

text \<open>Lines 229-236: the effect with dependencies \<open>textChunks\<close>, \<open>isSpeaking\<close>.\<close>

definition reset_effect :: "avatar \<Rightarrow> avatar" where
  "reset_effect s =
     (if length (textChunks s) = 0 \<or> \<not> isSpeaking s then s\<lparr>chunkIndex := 0\<rparr> else s)"

text \<open>
  One commit: the effects whose dependencies changed run in source order. The flags say
  whether \<open>textChunks\<close>, \<open>isSpeaking\<close> and \<open>chunkIndex\<close> changed. No effect reads a state
  variable that an earlier effect of the same commit writes, so running them in sequence on
  the record agrees with running them on the snapshot of the render.
\<close>

definition run_effects :: "bool \<Rightarrow> bool \<Rightarrow> bool \<Rightarrow> avatar \<Rightarrow> avatar" where
  "run_effects tc sp ci s =
     (let s1 = (if sp then isSpeaking_effect s else s);
          s2 = (if tc \<or> ci \<or> sp then viseme_effect s1 else s1)
      in if tc \<or> sp then reset_effect s2 else s2)"

text \<open>
  A commit followed by the render it triggers: when an effect changed \<open>chunkIndex\<close>, the
  component renders again and the effect that depends on \<open>chunkIndex\<close> runs once more.
\<close>

definition commit :: "bool \<Rightarrow> bool \<Rightarrow> avatar \<Rightarrow> avatar" where
  "commit tc sp s =
     (let s' = run_effects tc sp False s
      in if chunkIndex s' \<noteq> chunkIndex s then run_effects False False True s' else s')"

text \<open>Mounting: the initial state of lines 60-63, then every effect runs.\<close>

definition mount :: "code_unit list list \<Rightarrow> bool \<Rightarrow> avatar" where
  "mount chunks speaking =
     commit True True
       \<lparr>textChunks = chunks, isSpeaking = speaking, currentViseme = VX, chunkIndex = 0,
        visemeTimer = None, clock = 0\<rparr>"

text \<open>
  The parent renders the component with new props. \<open>Some chunks\<close> is a new array (a new
  reference, which always counts as a change of the dependency), \<open>None\<close> the same array.
\<close>

definition update_props ::
  "code_unit list list option \<Rightarrow> bool \<Rightarrow> avatar \<Rightarrow> avatar" where
  "update_props chunks speaking s =
     commit (chunks \<noteq> None) (speaking \<noteq> isSpeaking s)
       (s\<lparr>textChunks := (case chunks of None \<Rightarrow> textChunks s | Some t \<Rightarrow> t),
          isSpeaking := speaking\<rparr>)"

text \<open>
  Lines 206-216: the callback of the timeout, with the captured \<open>chunkIndex\<close> (\<open>ci\<close>) and
  \<open>textChunks.length\<close> (\<open>n\<close>). Advancing the index changes it, so the component renders
  again and the viseme effect runs.
\<close>

definition timer_callback :: "nat \<Rightarrow> nat \<Rightarrow> avatar \<Rightarrow> avatar" where
  "timer_callback ci n s =
     (if int ci < int n - 1 then run_effects False False True (s\<lparr>chunkIndex := chunkIndex s + 1\<rparr>)
      else s\<lparr>currentViseme := VX\<rparr>)"

definition fire :: "avatar \<Rightarrow> avatar" where
  "fire s =
     (case visemeTimer s of
        None \<Rightarrow> s
      | Some (due, ci, n) \<Rightarrow>
          if due \<le> clock s then timer_callback ci n (s\<lparr>visemeTimer := None\<rparr>) else s)"

text \<open>One millisecond passes; \<open>elapse n\<close> lets \<open>n\<close> milliseconds pass.\<close>

definition ms_step :: "avatar \<Rightarrow> avatar" where
  "ms_step s = fire (s\<lparr>clock := clock s + 1\<rparr>)"

definition elapse :: "nat \<Rightarrow> avatar \<Rightarrow> avatar" where
  "elapse n s = (ms_step ^^ n) s"

text \<open>What can happen to a mounted component, and a run over a list of such events.\<close>

datatype event = Elapse nat | UpdateProps "code_unit list list option" bool

fun step :: "event \<Rightarrow> avatar \<Rightarrow> avatar" where
  "step (Elapse n) s = elapse n s"
| "step (UpdateProps chunks speaking) s = update_props chunks speaking s"

definition run :: "avatar \<Rightarrow> event list \<Rightarrow> avatar" where
  "run s es = foldl (\<lambda>s e. step e s) s es"

definition hello :: "code_unit list list" where
  "hello = map units [''h'', ''e'', ''l'', ''l'', ''o'']"

text \<open>
  The states of the run on \<open>hello\<close>: while the tokens are played (\<open>hello_at\<close>, with the
  mouth shape, the cursor and the time), and once the last one has been played
  (\<open>hello_done\<close>). \<open>hello_x\<close> is the buffer with one more token appended.
\<close>

definition hello_at :: "Viseme \<Rightarrow> nat \<Rightarrow> nat \<Rightarrow> avatar" where
  "hello_at v i t =
     \<lparr>textChunks = hello, isSpeaking = True, currentViseme = v, chunkIndex = i,
      visemeTimer = Some (t + 100, i, 5), clock = t\<rparr>"

definition hello_done :: "nat \<Rightarrow> avatar" where
  "hello_done t =
     \<lparr>textChunks = hello, isSpeaking = True, currentViseme = VX, chunkIndex = 4,
      visemeTimer = None, clock = t\<rparr>"

definition hello_x :: "code_unit list list" where
  "hello_x = hello @ [units ''x'']"

text \<open>What holds of the component whenever it is not speaking.\<close>

definition idle_inv :: "avatar \<Rightarrow> bool" where
  "idle_inv s \<longleftrightarrow>
     (\<not> isSpeaking s \<longrightarrow> currentViseme s = VX \<and> visemeTimer s = None \<and> chunkIndex s = 0)"

section \<open>The producer (src/App.tsx, lines 6-162)\<close>

text \<open>
  The state and the refs of \<open>App\<close>. The fields \<open>app_textChunks\<close> and \<open>app_isSpeaking\<close> are
  the state variables \<open>textChunks\<close> and \<open>isSpeaking\<close> that are handed to the avatar as
  props. \<open>streamTimerRef\<close> is the pending timeout of the token stream, if any, with the two
  values that its callback \<open>streamNextToken\<close> closes over: \<open>isSpeaking\<close> and
  \<open>streamingSpeed\<close> of the render in which the chain was started. \<open>typingTimeoutRef\<close> is
  the pending inactivity timeout with its delay.
\<close>

record app =
  app_textChunks :: "string list"
  inputText :: string
  app_isSpeaking :: bool
  streamingSpeed :: nat
  streamTimerRef :: "(bool \<times> nat) option"
  currentTokenRef :: nat
  tokensToStreamRef :: "string list"
  typingTimeoutRef :: "nat option"
  lastTypedTextRef :: string

definition sampleText :: string where
  "sampleText = ''Start typing here and I will speak in real-time!''"

definition app_init :: app where
  "app_init =
     \<lparr>app_textChunks = [], inputText = sampleText, app_isSpeaking = False, streamingSpeed = 100,
      streamTimerRef = None, currentTokenRef = 0, tokensToStreamRef = [], typingTimeoutRef = None,
      lastTypedTextRef = []\<rparr>"

definition maxChunks :: nat where
  "maxChunks = 20"

text \<open>\<open>xs.slice(-k)\<close> for a positive \<open>k\<close>: the elements from index \<open>max (length - k) 0\<close> on.\<close>

definition slice_last :: "nat \<Rightarrow> 'a list \<Rightarrow> 'a list" where
  "slice_last k xs = drop (length xs - k) xs"

text \<open>Lines 63-73: the updater passed to \<open>setTextChunks\<close>.\<close>

definition append_chunk :: "string list \<Rightarrow> string \<Rightarrow> string list" where
  "append_chunk prev newToken =
     (let updatedChunks = prev @ [newToken]
      in if length updatedChunks > maxChunks then slice_last maxChunks updatedChunks
         else updatedChunks)"

text \<open>
  \<open>setIsSpeaking(false)\<close> with what follows from it: when the flag changes, the component
  renders again, the cleanup of the effect of lines 141-153 clears the stream timeout, and
  the effect itself does nothing since the flag is false.
\<close>

definition lower_flag :: "app \<Rightarrow> app" where
  "lower_flag s =
     (if app_isSpeaking s then s\<lparr>app_isSpeaking := False, streamTimerRef := None\<rparr> else s)"

text \<open>
  Lines 49-88: \<open>streamNextToken\<close>, for the closure values \<open>speaking\<close> and \<open>speed\<close>. The
  token index is in range in the first branch.
\<close>

definition streamNextToken :: "bool \<Rightarrow> nat \<Rightarrow> app \<Rightarrow> app" where
  "streamNextToken speaking speed s =
     (if \<not> speaking then s
      else if currentTokenRef s < length (tokensToStreamRef s) then
        (let newToken = tokensToStreamRef s ! currentTokenRef s
         in s\<lparr>app_textChunks := append_chunk (app_textChunks s) newToken,
              currentTokenRef := currentTokenRef s + 1,
              streamTimerRef := Some (speaking, speed)\<rparr>)
      else if length (tokensToStreamRef s) > 0 then s\<lparr>streamTimerRef := Some (speaking, speed)\<rparr>
      else lower_flag s)"

text \<open>
  \<open>setIsSpeaking(true)\<close> with what follows from it: when the flag changes, the cleanup
  clears the stream timeout and the effect calls \<open>streamNextToken\<close> of the new render.
\<close>

definition raise_flag :: "app \<Rightarrow> app" where
  "raise_flag s =
     (if app_isSpeaking s then s
      else streamNextToken True (streamingSpeed s) (s\<lparr>app_isSpeaking := True, streamTimerRef := None\<rparr>))"

text \<open>Lines 31-46: \<open>processText\<close>; the new portion is split into one token per character.\<close>

definition processText :: "string \<Rightarrow> app \<Rightarrow> app" where
  "processText text s =
     (let newTextPortion = drop (length (lastTypedTextRef s)) text
      in if length newTextPortion > 0 then
           raise_flag (s\<lparr>tokensToStreamRef := tokensToStreamRef s @ map (\<lambda>c. [c]) newTextPortion,
                         lastTypedTextRef := text\<rparr>)
         else s)"

text \<open>Lines 91-111: \<open>handleTextChange\<close>; the inactivity timeout is replaced by a new one.\<close>

definition handleTextChange :: "string \<Rightarrow> app \<Rightarrow> app" where
  "handleTextChange newText s = processText newText (s\<lparr>inputText := newText, typingTimeoutRef := Some 1500\<rparr>)"

text \<open>Lines 101-107: the callback of the inactivity timeout.\<close>

definition typing_timeout_callback :: "app \<Rightarrow> app" where
  "typing_timeout_callback s =
     (if currentTokenRef s \<ge> length (tokensToStreamRef s) then lower_flag s else s)"

text \<open>Lines 119-121 and 124-138.\<close>

definition handleSpeedChange :: "nat \<Rightarrow> app \<Rightarrow> app" where
  "handleSpeedChange v s = s\<lparr>streamingSpeed := v\<rparr>"

definition handleReset :: "app \<Rightarrow> app" where
  "handleReset s =
     (lower_flag (s\<lparr>streamTimerRef := None, typingTimeoutRef := None\<rparr>))
       \<lparr>inputText := [], app_textChunks := [], tokensToStreamRef := [], currentTokenRef := 0,
        lastTypedTextRef := []\<rparr>"

text \<open>
  The events of the producer: the user edits the text, moves the speed slider or presses
  reset, and each of the two timeouts, when pending, may fire.
\<close>

datatype app_event =
  TextChange string | SpeedChange nat | Reset | StreamTimerFires | TypingTimeoutFires

fun app_step :: "app_event \<Rightarrow> app \<Rightarrow> app" where
  "app_step (TextChange newText) s = handleTextChange newText s"
| "app_step (SpeedChange v) s = handleSpeedChange v s"
| "app_step Reset s = handleReset s"
| "app_step StreamTimerFires s =
     (case streamTimerRef s of
        None \<Rightarrow> s
      | Some (speaking, speed) \<Rightarrow> streamNextToken speaking speed (s\<lparr>streamTimerRef := None\<rparr>))"
| "app_step TypingTimeoutFires s =
     (case typingTimeoutRef s of
        None \<Rightarrow> s
      | Some delay \<Rightarrow> typing_timeout_callback (s\<lparr>typingTimeoutRef := None\<rparr>))"

definition app_run :: "app \<Rightarrow> app_event list \<Rightarrow> app" where
  "app_run s es = foldl (\<lambda>s e. app_step e s) s es"

text \<open>The producer after the text hi was typed and both tokens were streamed.\<close>

definition typed_hi :: app where
  "typed_hi = app_run app_init [TextChange ''hi'', StreamTimerFires]"

section \<open>Numbers (IEEE 754 double precision)\<close>

text \<open>
  A Number of the language is a double. A finite double is modelled by its value, a rational;
  an arithmetic operation is the exact operation followed by rounding to the nearest double,
  ties to the even significand (\<open>fl\<close>). Overflow to infinity is left out: \<open>fl\<close> is the
  operation of the language for results of magnitude below \<open>2 ^ 1024\<close>.
\<close>

text \<open>The binary exponent of a positive rational: the floor of its logarithm to base 2.\<close>

definition ilog2 :: "rat \<Rightarrow> int" where
  "ilog2 x = (if 1 \<le> x then bitlen \<lfloor>x\<rfloor> - 1 else - bitlen (\<lceil>1 / x\<rceil> - 1))"

definition round_even :: "rat \<Rightarrow> int" where
  "round_even q =
     (let f = \<lfloor>q\<rfloor>; d = q - of_int f
      in if d < 1 / 2 then f else if 1 / 2 < d then f + 1 else if even f then f else f + 1)"

text \<open>
  The spacing of the doubles around \<open>x\<close>: 52 fraction bits below the exponent, which is
  at least \<open>-1022\<close> (subnormal numbers).
\<close>

definition ulp :: "rat \<Rightarrow> rat" where
  "ulp x = 2 powi (max (ilog2 \<bar>x\<bar>) (- 1022) - 52)"

definition fl :: "rat \<Rightarrow> rat" where
  "fl x = (if x = 0 then 0 else of_int (round_even (x / ulp x)) * ulp x)"

definition is_double :: "rat \<Rightarrow> bool" where
  "is_double x \<longleftrightarrow> fl x = x"

definition fadd :: "rat \<Rightarrow> rat \<Rightarrow> rat" where "fadd a b = fl (a + b)"
definition fsub :: "rat \<Rightarrow> rat \<Rightarrow> rat" where "fsub a b = fl (a - b)"
definition fmul :: "rat \<Rightarrow> rat \<Rightarrow> rat" where "fmul a b = fl (a * b)"
definition fdiv :: "rat \<Rightarrow> rat \<Rightarrow> rat" where "fdiv a b = fl (a / b)"

section \<open>Blink cycle (src/components/AIAvatar.tsx, lines 61, 70 and 83-102)\<close>

text \<open>
  The two callbacks of the cycle: the outer one starts a blink and sets the inner timeout,
  the inner one ends the blink and schedules the next one.
\<close>

datatype blink_callback = BlinkStart | BlinkEnd

text \<open>
  The state \<open>isBlinking\<close>, the ref \<open>blinkIntervalRef\<close> (a timer id, or null), and the timer
  queue of the runtime: the pending timeouts with id, due time and callback, in the order in
  which they were set. Timer ids are positive, hence truthy. Timeouts fire exactly when due.
\<close>

record blinker =
  isBlinking :: bool
  blinkIntervalRef :: "nat option"
  blink_timers :: "(nat \<times> rat \<times> blink_callback) list"
  next_timer_id :: nat
  blink_clock :: rat

definition setTimeout :: "blink_callback \<Rightarrow> rat \<Rightarrow> blinker \<Rightarrow> nat \<times> blinker" where
  "setTimeout cb delay s =
     (next_timer_id s,
      s\<lparr>blink_timers := blink_timers s @ [(next_timer_id s, blink_clock s + delay, cb)],
        next_timer_id := next_timer_id s + 1\<rparr>)"

definition clearTimeout :: "nat \<Rightarrow> blinker \<Rightarrow> blinker" where
  "clearTimeout i s = s\<lparr>blink_timers := filter (\<lambda>t. fst t \<noteq> i) (blink_timers s)\<rparr>"

text \<open>Line 87: the delay until the next blink, for the value \<open>r\<close> of \<open>Math.random()\<close>.\<close>

definition nextBlinkDelay :: "rat \<Rightarrow> rat" where
  "nextBlinkDelay r = fadd (fmul r 3000) 2000"

text \<open>Lines 84-95: \<open>scheduleNextBlink\<close>, with the value \<open>r\<close> that \<open>Math.random()\<close> returns.\<close>

definition scheduleNextBlink :: "rat \<Rightarrow> blinker \<Rightarrow> blinker" where
  "scheduleNextBlink r s =
     (let s1 = (case blinkIntervalRef s of Some i \<Rightarrow> clearTimeout i s | None \<Rightarrow> s);
          (i, s2) = setTimeout BlinkStart (nextBlinkDelay r) s1
      in s2\<lparr>blinkIntervalRef := Some i\<rparr>)"

text \<open>Lines 88-94: the two callbacks; the id of the inner timeout is not kept.\<close>

definition blink_run :: "blink_callback \<Rightarrow> rat \<Rightarrow> blinker \<Rightarrow> blinker" where
  "blink_run cb r s =
     (case cb of
        BlinkStart \<Rightarrow> snd (setTimeout BlinkEnd 150 (s\<lparr>isBlinking := True\<rparr>))
      | BlinkEnd \<Rightarrow> scheduleNextBlink r (s\<lparr>isBlinking := False\<rparr>))"

text \<open>Line 97: the effect runs once, when the component is mounted.\<close>

definition blink_mount :: "rat \<Rightarrow> blinker" where
  "blink_mount r =
     scheduleNextBlink r
       \<lparr>isBlinking = False, blinkIntervalRef = None, blink_timers = [], next_timer_id = 1,
        blink_clock = 0\<rparr>"

text \<open>
  The runtime fires the pending timeout that is due first (the one set first among equals):
  the clock moves to its due time, the timeout leaves the queue and its callback runs,
  where \<open>r\<close> is the random value for the case that the callback asks for one.
\<close>

fun earliest :: "(nat \<times> rat \<times> blink_callback) list \<Rightarrow> (nat \<times> rat \<times> blink_callback) option" where
  "earliest [] = None"
| "earliest (t # ts) =
     (case earliest ts of
        None \<Rightarrow> Some t
      | Some u \<Rightarrow> if fst (snd u) < fst (snd t) then Some u else Some t)"

definition fire_next :: "rat \<Rightarrow> blinker \<Rightarrow> blinker" where
  "fire_next r s =
     (case earliest (blink_timers s) of
        None \<Rightarrow> s
      | Some (i, due, cb) \<Rightarrow>
          blink_run cb r (s\<lparr>blink_timers := filter (\<lambda>t. fst t \<noteq> i) (blink_timers s),
                             blink_clock := due\<rparr>))"


section \<open>Eye geometry (src/components/AIAvatar.tsx, lines 7, 238-245, 292-383 and 438-476)\<close>

datatype EyeEmotion = Neutral | Happy | Sad | Angry | Surprised

definition eyeOffsetX :: rat where "eyeOffsetX = 20"
definition eyeOffsetY :: rat where "eyeOffsetY = - 8"
definition eyeWidth :: rat where "eyeWidth = 18"
definition eyeHeight :: rat where "eyeHeight = 24"

text \<open>
  The functions of the source return SVG path data as text. The model returns the same
  commands with their numbers: absolute \<open>M\<close>, \<open>H\<close>, \<open>L\<close>, \<open>Q\<close>, \<open>Z\<close> and relative \<open>m\<close>,
  \<open>a\<close>. A decimal literal of the source is the nearest double, \<open>fl\<close> of the decimal.
\<close>

datatype path_cmd =
  MoveTo rat rat
| MoveBy rat rat
| HorizTo rat
| LineTo rat rat
| QuadTo rat rat rat rat
| ArcBy rat rat rat bool bool rat rat
| ClosePath

text \<open>Lines 295-296: the constants \<open>width\<close> and \<open>height\<close> of \<open>getEyePath\<close>.\<close>

definition eye_outline_width :: "EyeEmotion \<Rightarrow> rat" where
  "eye_outline_width emotion =
     (if emotion = Neutral \<or> emotion = Surprised then fmul eyeWidth (fl (5 / 4)) else eyeWidth)"

definition eye_outline_height :: "EyeEmotion \<Rightarrow> rat" where
  "eye_outline_height emotion =
     (if emotion = Neutral \<or> emotion = Surprised then fmul eyeHeight (fl (5 / 4)) else eyeHeight)"

text \<open>
  Lines 292-331: \<open>getEyePath\<close>. In the circle of the surprised eye the source writes a
  minus sign in front of the radius and of twice the radius, which are positive.
\<close>

definition getEyePath :: "EyeEmotion \<Rightarrow> bool \<Rightarrow> bool \<Rightarrow> path_cmd list" where
  "getEyePath emotion isLeft blinking =
     (let x = (if isLeft then - eyeOffsetX else eyeOffsetX);
          y = eyeOffsetY;
          width = eye_outline_width emotion;
          height = eye_outline_height emotion
      in if blinking then [MoveTo (fsub x (fdiv width 2)) y, HorizTo (fadd x (fdiv width 2))]
         else case emotion of
           Happy \<Rightarrow>
             [MoveTo (fsub x (fdiv width 2)) y,
              QuadTo (fsub x (fmul width (fl (1 / 5)))) (fsub y (fmul height (fl (3 / 5))))
                     x (fsub y (fmul height (fl (1 / 5)))),
              QuadTo (fadd x (fmul width (fl (1 / 5)))) (fsub y (fmul height (fl (3 / 5))))
                     (fadd x (fdiv width 2)) y,
              LineTo (fsub x (fdiv width 2)) y, ClosePath]
         | Sad \<Rightarrow>
             [MoveTo (fsub x (fdiv width 2)) y,
              QuadTo x (fsub y (fmul height (fl (1 / 2)))) (fadd x (fdiv width 2)) y,
              QuadTo x (fadd y (fmul height (fl (3 / 5)))) (fsub x (fdiv width 2)) y, ClosePath]
         | Angry \<Rightarrow>
             [MoveTo (fsub x (fdiv width 2)) (fsub y (fmul height (fl (1 / 5)))),
              QuadTo x (fsub y (fmul height (fl (4 / 5))))
                     (fadd x (fdiv width 2)) (fsub y (fmul height (fl (1 / 5)))),
              QuadTo x (fadd y (fmul height (fl (7 / 20))))
                     (fsub x (fdiv width 2)) (fsub y (fmul height (fl (1 / 5)))), ClosePath]
         | Surprised \<Rightarrow>
             (let radius = fdiv (min width height) 2
              in [MoveTo x y, MoveBy (- radius) 0,
                  ArcBy radius radius 0 True False (fmul radius 2) 0,
                  ArcBy radius radius 0 True False (- fmul radius 2) 0])
         | Neutral \<Rightarrow>
             [MoveTo (fsub x (fdiv width 2)) (fsub y (fmul height (fl (1 / 5)))),
              QuadTo x (fsub y (fmul height (fl (4 / 5))))
                     (fadd x (fdiv width 2)) (fsub y (fmul height (fl (1 / 5)))),
              QuadTo x (fadd y (fmul height (fl (7 / 20))))
                     (fsub x (fdiv width 2)) (fsub y (fmul height (fl (1 / 5)))), ClosePath])"

text \<open>Lines 334-355: \<open>getEyeShinePosition\<close>; first the two offsets, then the position.\<close>

definition shine_offset :: "EyeEmotion \<Rightarrow> rat \<times> rat" where
  "shine_offset emotion =
     (let offsetX = fmul eyeWidth (fl (1 / 5));
          offsetY = fmul (- eyeHeight) (fl (1 / 5))
      in if emotion = Sad then (offsetX, fmul eyeHeight (fl (3 / 20)))
         else if emotion = Surprised then (0, fmul (- eyeHeight) (fl (1 / 5)))
         else (offsetX, offsetY))"

definition getEyeShinePosition :: "EyeEmotion \<Rightarrow> bool \<Rightarrow> rat \<times> rat" where
  "getEyeShinePosition emotion isLeft =
     (let baseX = (if isLeft then - eyeOffsetX else eyeOffsetX);
          (offsetX, offsetY) = shine_offset emotion
      in (fadd baseX offsetX, fadd eyeOffsetY offsetY))"

text \<open>Lines 358-361: \<open>getEyeShineSize\<close>.\<close>

definition getEyeShineSize :: "EyeEmotion \<Rightarrow> rat" where
  "getEyeShineSize emotion =
     (if emotion = Surprised then fmul eyeWidth (fl (39 / 200)) else fmul eyeWidth (fl (3 / 20)))"

text \<open>
  Lines 496-514: the highlights that the component renders, left then right, each with its
  centre and its radius. (The offset that the distraction animation adds is left out.)
\<close>

definition eye_shines :: "EyeEmotion \<Rightarrow> bool \<Rightarrow> ((rat \<times> rat) \<times> rat) list" where
  "eye_shines eyeEmotion blinking =
     (if \<not> blinking
      then [(getEyeShinePosition eyeEmotion True, getEyeShineSize eyeEmotion),
            (getEyeShinePosition eyeEmotion False, getEyeShineSize eyeEmotion)]
      else [])"

text \<open>Lines 364-383: the two eyebrow paths.\<close>

definition getAngryEyebrowPath :: "bool \<Rightarrow> path_cmd list" where
  "getAngryEyebrowPath isLeft =
     (let x = (if isLeft then - eyeOffsetX else eyeOffsetX);
          y = fsub eyeOffsetY (fmul eyeHeight (fl (3 / 5)));
          width = fmul eyeWidth (fl (9 / 10))
      in if isLeft
         then [MoveTo (fsub x (fdiv width 2)) (fsub y (fmul width (fl (3 / 10)))),
               LineTo (fadd x (fdiv width 2)) y]
         else [MoveTo (fsub x (fdiv width 2)) y,
               LineTo (fadd x (fdiv width 2)) (fsub y (fmul width (fl (3 / 10))))])"

definition getSurprisedEyebrowPath :: "bool \<Rightarrow> path_cmd list" where
  "getSurprisedEyebrowPath isLeft =
     (let x = (if isLeft then - eyeOffsetX else eyeOffsetX);
          y = fsub eyeOffsetY (fmul eyeHeight (fl (11 / 10)));
          width = fmul eyeWidth (fl (13 / 10))
      in [MoveTo (fsub x (fdiv width 2)) y,
          QuadTo x (fsub y (fmul width (fl (2 / 5)))) (fadd x (fdiv width 2)) y])"

text \<open>Lines 438-476: the eyebrow paths that the component renders, left then right.\<close>

definition eyebrow_paths :: "EyeEmotion \<Rightarrow> bool \<Rightarrow> path_cmd list list" where
  "eyebrow_paths eyeEmotion blinking =
     (if eyeEmotion = Angry \<and> \<not> blinking
      then [getAngryEyebrowPath True, getAngryEyebrowPath False] else [])
     @ (if eyeEmotion = Surprised \<and> \<not> blinking
        then [getSurprisedEyebrowPath True, getSurprisedEyebrowPath False] else [])"

text \<open>
  What a circular outline is: a path that moves to a centre, steps left by a positive radius
  and closes a full turn with two half arcs of that radius in both axes. The result is the
  centre and the radius.
\<close>

fun circle_outline :: "path_cmd list \<Rightarrow> (rat \<times> rat \<times> rat) option" where
  "circle_outline [MoveTo cx cy, MoveBy dx dy, ArcBy rx ry rot large sweep ax ay,
                   ArcBy rx' ry' rot' large' sweep' ax' ay'] =
     (if 0 < rx \<and> rx = ry \<and> rx' = rx \<and> ry' = rx \<and> dx = - rx \<and> dy = 0
         \<and> ax = 2 * rx \<and> ay = 0 \<and> ax' = - (2 * rx) \<and> ay' = 0
         \<and> large \<and> large' \<and> sweep = sweep'
      then Some (cx, cy, rx) else None)"
| "circle_outline p = None"

definition all_emotions :: "EyeEmotion list" where
  "all_emotions = [Neutral, Happy, Sad, Angry, Surprised]"

section \<open>Facts about the resolver\<close>

text \<open>The code units of the keys and of the capitals.\<close>

lemma units_keys: "units table_keys = [97..<123] @ [32, 46, 44, 63, 33]"
  by (simp add: units_def table_keys_def lowercase_letters_def)

lemma units_capitals: "units uppercase_letters = [65..<91]"
  by (simp add: units_def uppercase_letters_def)

lemma keys_VISEME_MAP: "map fst VISEME_MAP = key_strings"
  by (simp add: VISEME_MAP_def key_strings_def units_def table_keys_def lowercase_letters_def)

lemma lower_ranges_targets:
  "list_all (\<lambda>r. r = (0x41, 0x5A, 1, 0x61) \<or> r = (0x212A, 0x212A, 1, 0x6B) \<or> 122 < snd (snd (snd r)))
     lower_ranges"
  by (simp add: lower_ranges_def)


lemma key_units_small: "k \<in> set (units table_keys) \<Longrightarrow> k \<le> 122"
  by (auto simp: units_keys)

lemma key_strings_single: "s \<in> set key_strings \<longleftrightarrow> (\<exists>k \<in> set (units table_keys). s = [k])"
  by (auto simp: key_strings_def)

lemma capitals_range: "65 \<le> c \<Longrightarrow> c \<le> 90 \<Longrightarrow> c \<in> set (units uppercase_letters)"
  unfolding units_capitals set_upt by simp

lemma toLowerCase_key:
  assumes "toLowerCase c \<in> set key_strings"
  shows "c \<in> set (units table_keys) \<or> c \<in> set (units uppercase_letters) \<or> c = 0x212A"
proof (cases "c = 0x0130")
  case True
  then have "toLowerCase c = [0x0069, 0x0307]" by (simp add: toLowerCase_def)
  with assms show ?thesis by (simp add: key_strings_single)
next
  case False
  show ?thesis
  proof (cases "find (in_range c) lower_ranges")
    case None
    with False have "toLowerCase c = [c]" by (simp add: toLowerCase_def)
    with assms show ?thesis by (simp add: key_strings_single)
  next
    case (Some r)
    obtain lo hi step target where r: "r = (lo, hi, step, target)" by (cases r) auto
    from Some have mem: "r \<in> set lower_ranges" and inr: "in_range c r"
      by (auto simp: find_Some_iff)
    from Some False r have low: "toLowerCase c = [target + (c - lo)]"
      by (simp add: toLowerCase_def)
    from mem lower_ranges_targets
    consider "r = (0x41, 0x5A, 1, 0x61)" | "r = (0x212A, 0x212A, 1, 0x6B)" | "122 < target"
      using r by (auto simp: list_all_iff)
    then show ?thesis
    proof cases
      case 1
      with inr have "65 \<le> c" "c \<le> 90" by (simp_all add: in_range_def)
      then show ?thesis by (simp add: capitals_range)
    next
      case 2
      with inr show ?thesis by (simp add: in_range_def)
    next
      case 3
      from assms low have "target + (c - lo) \<in> set (units table_keys)"
        by (simp add: key_strings_single)
      then have "target + (c - lo) \<le> 122" by (rule key_units_small)
      with 3 show ?thesis by simp
    qed
  qed
qed

lemma lower_ranges_split:
  "lower_ranges = (0x41, 0x5A, 1, 0x61) # tl lower_ranges"
  by (simp add: lower_ranges_def)

lemma lower_ranges_above_ascii:
  "list_all (\<lambda>r. 128 \<le> fst r) (tl lower_ranges)"
  by (simp add: lower_ranges_def)

lemma toLowerCase_ascii:
  assumes "c < 128"
  shows "toLowerCase c = (if 65 \<le> c \<and> c \<le> 90 then [c + 32] else [c])"
proof -
  have rest: "find (in_range c) (tl lower_ranges) = None"
    using lower_ranges_above_ascii assms
    by (auto simp: find_None_iff list_all_iff in_range_def)
  have "find (in_range c) lower_ranges
      = (if 65 \<le> c \<and> c \<le> 90 then Some (0x41, 0x5A, 1, 0x61) else None)"
    by (subst lower_ranges_split) (simp add: rest in_range_def)
  with assms show ?thesis by (simp add: toLowerCase_def)
qed

lemma lookup_keys:
  "map lookup_viseme key_strings =
     [VA, VB, VC, VD, VE, VF, VG, VH, VC, VH, VG, VC, VB, VC, VH, VB, VG, VC, VC, VC,
      VH, VF, VH, VC, VC, VC, VX, VX, VX, VD, VD]"
  by (simp only: key_strings_def units_keys) (simp add: lookup_viseme_def VISEME_MAP_def units_def)

lemma resolve_ascii:
  "c < 128 \<Longrightarrow> resolve c = lookup_viseme (if 65 \<le> c \<and> c \<le> 90 then [c + 32] else [c])"
  by (simp add: resolve_def toLowerCase_ascii)

lemma resolve_table:
  "map resolve (units table_keys) =
     [VA, VB, VC, VD, VE, VF, VG, VH, VC, VH, VG, VC, VB, VC, VH, VB, VG, VC, VC, VC,
      VH, VF, VH, VC, VC, VC, VX, VX, VX, VD, VD]"
proof -
  have "map resolve (units table_keys) = map lookup_viseme key_strings"
    by (simp only: units_keys key_strings_def) (simp add: resolve_ascii)
  then show ?thesis by (simp only: lookup_keys)
qed

lemma resolve_upper:
  "map resolve (units uppercase_letters) =
     [VA, VB, VC, VD, VE, VF, VG, VH, VC, VH, VG, VC, VB, VC, VH, VB, VG, VC, VC, VC,
      VH, VF, VH, VC, VC, VC]"
  by (simp only: units_capitals) (simp add: resolve_ascii lookup_viseme_def VISEME_MAP_def units_def)

lemma resolve_lower:
  "map resolve (units lowercase_letters) =
     [VA, VB, VC, VD, VE, VF, VG, VH, VC, VH, VG, VC, VB, VC, VH, VB, VG, VC, VC, VC,
      VH, VF, VH, VC, VC, VC]"
  using resolve_table by (simp add: table_keys_def units_def)

lemma toLowerCase_upper:
  "map toLowerCase (units uppercase_letters) = map (\<lambda>c. [c]) (units lowercase_letters)"
  by (simp only: units_capitals) (simp add: toLowerCase_ascii units_def lowercase_letters_def)

lemma resolve_samples:
  "map resolve (units ''bmp'') = [VB, VB, VB]" "map resolve (units ''fv'') = [VF, VF]"
  "map resolve (units ''kqg'') = [VG, VG, VG]" "map resolve (units ''?!'') = [VD, VD]"
  "map resolve (units '' .,'') = [VX, VX, VX]"
  by (simp_all add: units_def resolve_ascii lookup_viseme_def VISEME_MAP_def)

lemma resolve_digits_punctuation:
  "map resolve (units ''0123456789;:-_()[]{}#$%&*+/<=>@^~'') = replicate 33 VX"
  by (simp add: units_def resolve_ascii lookup_viseme_def VISEME_MAP_def) (simp add: numeral_eq_Suc)

lemma toLowerCase_kelvin: "toLowerCase 0x212A = [0x6B]"
  by (simp add: toLowerCase_def lower_ranges_def in_range_def)

lemma resolve_kelvin: "resolve 0x212A = VG"
  by (simp add: resolve_def toLowerCase_kelvin lookup_viseme_def VISEME_MAP_def units_def)

lemma resolve_dotted_I: "toLowerCase 0x0130 = [0x0069, 0x0307]" "resolve 0x0130 = VX"
  by (simp_all add: resolve_def toLowerCase_def lookup_viseme_def VISEME_MAP_def units_def)

lemma lookup_viseme_unmapped: "k \<notin> set key_strings \<Longrightarrow> lookup_viseme k = VX"
proof -
  assume "k \<notin> set key_strings"
  then have "k \<notin> fst ` set VISEME_MAP"
    unfolding keys_VISEME_MAP [symmetric] by simp
  then have "map_of VISEME_MAP k = None"
    by (simp add: map_of_eq_None_iff)
  then show ?thesis by (simp add: lookup_viseme_def)
qed

lemma resolve_capital_A: "resolve 65 = VA"
  by (simp add: resolve_ascii lookup_viseme_def VISEME_MAP_def units_def)

subsection \<open>C1: the resolver on the table keys and on every other character\<close>

text \<open>
  C1, as stated, fails on the capitals: a capital letter is none of the 26 lowercase letters
  and none of the five marks, yet the resolver lowercases it before the lookup and returns
  the shape of its lowercase letter, here \<open>VA\<close> for the character A, not rest.
\<close>

theorem resolve_other_character_counterexample:
  "of_char (CHR ''A'') \<notin> set (units table_keys) \<and> resolve (of_char (CHR ''A'')) = VA
   \<and> resolve (of_char (CHR ''A'')) \<noteq> VX"
proof -
  have "of_char (CHR ''A'') = (65 :: nat)" by simp
  then show ?thesis by (simp only: units_keys resolve_capital_A) simp
qed

text \<open>
  C1 (amended): the resolver is a total function on the code units, with no error value.
  Each of the 26 lowercase letters and the marks space, full stop, comma, question mark and
  exclamation mark returns its table entry (b, m, p give \<open>VB\<close>; f, v give \<open>VF\<close>; k, q, g
  give \<open>VG\<close>; the question and exclamation marks give \<open>VD\<close>; space, full stop and comma
  give \<open>VX\<close>), and every other character whose lowercase form is none of these 31 keys,
  digits and unmapped punctuation included, returns rest \<open>VX\<close>. These are all code units
  other than the 31 keys, the 26 capital letters and the Kelvin sign \<open>0x212A\<close>, whose
  lowercase form is the letter k and which returns \<open>VG\<close>; the code unit \<open>0x0130\<close>, whose
  lowercase form has two code units, returns rest.
\<close>

theorem resolve_total_table:
  "map resolve (units table_keys) =
     [VA, VB, VC, VD, VE, VF, VG, VH, VC, VH, VG, VC, VB, VC, VH, VB, VG, VC, VC, VC,
      VH, VF, VH, VC, VC, VC, VX, VX, VX, VD, VD]
   \<and> map resolve (units ''bmp'') = [VB, VB, VB] \<and> map resolve (units ''fv'') = [VF, VF]
   \<and> map resolve (units ''kqg'') = [VG, VG, VG] \<and> map resolve (units ''?!'') = [VD, VD]
   \<and> map resolve (units '' .,'') = [VX, VX, VX]
   \<and> map resolve (units ''0123456789;:-_()[]{}#$%&*+/<=>@^~'') = replicate 33 VX
   \<and> (toLowerCase c \<notin> set key_strings \<longrightarrow> resolve c = VX)
   \<and> (c \<notin> set (units table_keys) \<and> c \<notin> set (units uppercase_letters) \<and> c \<noteq> 0x212A
        \<longrightarrow> toLowerCase c \<notin> set key_strings \<and> resolve c = VX)
   \<and> toLowerCase 0x212A = [0x6B] \<and> resolve 0x212A = VG
   \<and> toLowerCase 0x0130 = [0x0069, 0x0307] \<and> resolve 0x0130 = VX"
proof -
  have a: "toLowerCase c \<notin> set key_strings \<longrightarrow> resolve c = VX"
    using lookup_viseme_unmapped [of "toLowerCase c"] by (simp add: resolve_def)
  have b: "c \<notin> set (units table_keys) \<and> c \<notin> set (units uppercase_letters) \<and> c \<noteq> 0x212A
        \<longrightarrow> toLowerCase c \<notin> set key_strings"
    using toLowerCase_key [of c] by blast
  from a b show ?thesis
    using resolve_table resolve_samples resolve_digits_punctuation toLowerCase_kelvin
      resolve_kelvin resolve_dotted_I
    by blast
qed

theorem resolve_total_table_witness:
  "of_char (CHR ''7'') \<notin> set (units table_keys)
   \<and> of_char (CHR ''7'') \<notin> set (units uppercase_letters)
   \<and> of_char (CHR ''7'') \<noteq> (0x212A :: nat)
   \<and> toLowerCase (of_char (CHR ''7'')) \<notin> set key_strings
   \<and> resolve (of_char (CHR ''7'')) = VX"
proof -
  have a: "of_char (CHR ''7'') \<notin> set (units table_keys)
      \<and> of_char (CHR ''7'') \<notin> set (units uppercase_letters)
      \<and> of_char (CHR ''7'') \<noteq> (0x212A :: nat)"
    by (simp add: units_keys units_capitals)
  with resolve_total_table [of "of_char (CHR ''7'')"] show ?thesis by blast
qed

subsection \<open>C6: case invariance on the 26 letters\<close>

text \<open>
  C6: for each of the 26 letters, resolving the capital gives the same mouth shape as resolving
  the lowercase letter, position by position in the two alphabets; the lowercase alphabet is
  the image of the capitals under \<open>toLowerCase\<close>, the only form the lookup consults.
\<close>

theorem resolve_case_invariant:
  "map resolve (units uppercase_letters) = map resolve (units lowercase_letters)
   \<and> map toLowerCase (units uppercase_letters) = map (\<lambda>c. [c]) (units lowercase_letters)
   \<and> resolve c = lookup_viseme (toLowerCase c)"
  using resolve_upper resolve_lower toLowerCase_upper by (simp add: resolve_def)

section \<open>Facts about the speech animator\<close>

subsection \<open>The passing of time\<close>

lemma elapse_0: "elapse 0 s = s"
  by (simp add: elapse_def)

lemma elapse_Suc: "elapse (Suc n) s = ms_step (elapse n s)"
  by (simp add: elapse_def)

lemma elapse_add: "elapse (m + n) s = elapse n (elapse m s)"
proof -
  have "(ms_step ^^ (n + m)) s = (ms_step ^^ n) ((ms_step ^^ m) s)"
    by (simp add: funpow_add)
  then show ?thesis by (simp add: elapse_def add.commute)
qed

lemma elapse_idle: "visemeTimer s = None \<Longrightarrow> elapse n s = s\<lparr>clock := clock s + n\<rparr>"
proof (induction n)
  case 0
  then show ?case by (simp add: elapse_0)
next
  case (Suc n)
  then show ?case
    by (simp add: elapse_Suc ms_step_def fire_def)
qed

lemma elapse_wait:
  "visemeTimer s = Some (due, ci, k) \<Longrightarrow> clock s + n < due \<Longrightarrow>
   elapse n s = s\<lparr>clock := clock s + n\<rparr>"
proof (induction n)
  case 0
  then show ?case by (simp add: elapse_0)
next
  case (Suc n)
  then show ?case
    by (simp add: elapse_Suc ms_step_def fire_def)
qed

lemma elapse_fire:
  assumes "visemeTimer s = Some (due, ci, k)" and "clock s < due" and "n = due - clock s"
  shows "elapse n s = timer_callback ci k (s\<lparr>clock := due, visemeTimer := None\<rparr>)"
proof -
  from assms(2,3) have "0 < n" by simp
  then obtain m where m: "n = Suc m" using gr0_implies_Suc by blast
  then have "clock s + m < due" using assms(3) by simp
  then have "elapse m s = s\<lparr>clock := clock s + m\<rparr>"
    using assms(1) by (rule elapse_wait [rotated])
  moreover have "clock s + m + 1 = due" using m assms(3) by simp
  ultimately show ?thesis
    using assms(1) by (simp add: m elapse_Suc ms_step_def fire_def)
qed

subsection \<open>What the effects leave alone\<close>

lemma processChunks_frame:
  "chunkIndex (processChunks s) = chunkIndex s" "isSpeaking (processChunks s) = isSpeaking s"
  "textChunks (processChunks s) = textChunks s" "clock (processChunks s) = clock s"
  by (simp_all add: processChunks_def Let_def split: list.split)

lemma viseme_effect_frame:
  "chunkIndex (viseme_effect s) = chunkIndex s" "isSpeaking (viseme_effect s) = isSpeaking s"
  "textChunks (viseme_effect s) = textChunks s" "clock (viseme_effect s) = clock s"
  by (simp_all add: viseme_effect_def Let_def processChunks_frame)

lemma isSpeaking_effect_frame:
  "chunkIndex (isSpeaking_effect s) = chunkIndex s" "isSpeaking (isSpeaking_effect s) = isSpeaking s"
  "textChunks (isSpeaking_effect s) = textChunks s" "clock (isSpeaking_effect s) = clock s"
  "visemeTimer (isSpeaking_effect s) = visemeTimer s"
  by (simp_all add: isSpeaking_effect_def)

lemma reset_effect_frame:
  "isSpeaking (reset_effect s) = isSpeaking s" "textChunks (reset_effect s) = textChunks s"
  "clock (reset_effect s) = clock s" "visemeTimer (reset_effect s) = visemeTimer s"
  "currentViseme (reset_effect s) = currentViseme s"
  by (simp_all add: reset_effect_def)

lemmas effect_frame = processChunks_frame viseme_effect_frame isSpeaking_effect_frame reset_effect_frame

lemma run_effects_frame:
  "isSpeaking (run_effects tc sp ci s) = isSpeaking s"
  "textChunks (run_effects tc sp ci s) = textChunks s"
  "clock (run_effects tc sp ci s) = clock s"
  by (simp_all add: run_effects_def Let_def effect_frame)

lemma run_effects_chunkIndex:
  "chunkIndex (run_effects tc sp ci s) =
     (if (tc \<or> sp) \<and> (textChunks s = [] \<or> \<not> isSpeaking s) then 0 else chunkIndex s)"
  by (simp add: run_effects_def Let_def reset_effect_def effect_frame)

lemma commit_frame:
  "isSpeaking (commit tc sp s) = isSpeaking s"
  "textChunks (commit tc sp s) = textChunks s"
  "clock (commit tc sp s) = clock s"
  by (simp_all add: commit_def Let_def run_effects_frame)

lemma commit_chunkIndex:
  "chunkIndex (commit tc sp s) =
     (if (tc \<or> sp) \<and> (textChunks s = [] \<or> \<not> isSpeaking s) then 0 else chunkIndex s)"
  by (simp add: commit_def Let_def run_effects_chunkIndex)

lemma update_props_frame:
  "isSpeaking (update_props chunks speaking s) = speaking"
  "textChunks (update_props chunks speaking s) = (case chunks of None \<Rightarrow> textChunks s | Some t \<Rightarrow> t)"
  "clock (update_props chunks speaking s) = clock s"
  by (simp_all add: update_props_def commit_frame)

lemma update_props_chunkIndex:
  "chunkIndex (update_props chunks speaking s) =
     (if (chunks \<noteq> None \<or> speaking \<noteq> isSpeaking s)
         \<and> (textChunks (update_props chunks speaking s) = [] \<or> \<not> speaking)
      then 0 else chunkIndex s)"
  by (simp add: update_props_def commit_chunkIndex commit_frame)

lemma timer_callback_frame:
  "isSpeaking (timer_callback ci k s) = isSpeaking s"
  "textChunks (timer_callback ci k s) = textChunks s"
  "clock (timer_callback ci k s) = clock s"
  by (simp_all add: timer_callback_def run_effects_frame)

lemma timer_callback_chunkIndex:
  "chunkIndex (timer_callback ci k s) = (if int ci < int k - 1 then chunkIndex s + 1 else chunkIndex s)"
  by (simp add: timer_callback_def run_effects_chunkIndex)

lemma fire_frame:
  "isSpeaking (fire s) = isSpeaking s" "textChunks (fire s) = textChunks s" "clock (fire s) = clock s"
  by (simp_all add: fire_def timer_callback_frame split: option.split)

lemma fire_chunkIndex: "chunkIndex s \<le> chunkIndex (fire s)"
  by (simp add: fire_def timer_callback_chunkIndex split: option.split)

lemma ms_step_frame:
  "isSpeaking (ms_step s) = isSpeaking s" "textChunks (ms_step s) = textChunks s"
  "clock (ms_step s) = clock s + 1"
  by (simp_all add: ms_step_def fire_frame)

lemma ms_step_chunkIndex: "chunkIndex s \<le> chunkIndex (ms_step s)"
  using fire_chunkIndex [of "s\<lparr>clock := clock s + 1\<rparr>"] by (simp add: ms_step_def)

lemma elapse_frame:
  "isSpeaking (elapse n s) = isSpeaking s" "textChunks (elapse n s) = textChunks s"
  "clock (elapse n s) = clock s + n"
  by (induction n) (simp_all add: elapse_0 elapse_Suc ms_step_frame)

lemma elapse_chunkIndex: "chunkIndex s \<le> chunkIndex (elapse n s)"
proof (induction n)
  case 0
  show ?case by (simp add: elapse_0)
next
  case (Suc n)
  then show ?case
    using ms_step_chunkIndex [of "elapse n s"] by (simp add: elapse_Suc)
qed

subsection \<open>The run on hello, state by state\<close>

lemma hello_units: "hello = [[104], [101], [108], [108], [111]]"
  by (simp add: hello_def units_def)

lemma hello_x_units: "hello_x = [[104], [101], [108], [108], [111], [120]]"
  by (simp add: hello_x_def hello_units units_def)

lemma resolve_hello:
  "resolve 104 = VH" "resolve 101 = VE" "resolve 108 = VC" "resolve 111 = VH" "resolve 120 = VC"
  by (simp_all add: resolve_ascii lookup_viseme_def VISEME_MAP_def units_def)

lemmas animator_defs =
  mount_def update_props_def commit_def run_effects_def isSpeaking_effect_def viseme_effect_def
  processChunks_def reset_effect_def timer_callback_def nextChunkDelay_def Let_def

lemma mount_hello: "mount hello True = hello_at VH 0 0"
  by (simp add: animator_defs hello_at_def hello_units resolve_hello)

lemma hello_tick:
  "timer_callback i 5 ((hello_at v i t)\<lparr>clock := t + 100, visemeTimer := None\<rparr>) = s' \<Longrightarrow>
   elapse 100 (hello_at v i t) = s'"
  using elapse_fire [of "hello_at v i t" "t + 100" i 5 100] by (simp add: hello_at_def)

lemma hello_100: "elapse 100 (hello_at VH 0 0) = hello_at VE 1 100"
  by (rule hello_tick) (simp add: animator_defs hello_at_def hello_units resolve_hello)

lemma hello_200: "elapse 100 (hello_at VE 1 100) = hello_at VC 2 200"
  by (rule hello_tick) (simp add: animator_defs hello_at_def hello_units resolve_hello)

lemma hello_300: "elapse 100 (hello_at VC 2 200) = hello_at VC 3 300"
  by (rule hello_tick) (simp add: animator_defs hello_at_def hello_units resolve_hello)

lemma hello_400: "elapse 100 (hello_at VC 3 300) = hello_at VH 4 400"
  by (rule hello_tick) (simp add: animator_defs hello_at_def hello_units resolve_hello)

lemma hello_500: "elapse 100 (hello_at VH 4 400) = hello_done 500"
  by (rule hello_tick) (simp add: animator_defs hello_at_def hello_done_def hello_units)

lemma hello_run:
  "elapse 0 (mount hello True) = hello_at VH 0 0"
  "elapse 100 (mount hello True) = hello_at VE 1 100"
  "elapse 200 (mount hello True) = hello_at VC 2 200"
  "elapse 300 (mount hello True) = hello_at VC 3 300"
  "elapse 400 (mount hello True) = hello_at VH 4 400"
  "elapse 500 (mount hello True) = hello_done 500"
proof -
  show a0: "elapse 0 (mount hello True) = hello_at VH 0 0"
    by (simp add: elapse_0 mount_hello)
  show a1: "elapse 100 (mount hello True) = hello_at VE 1 100"
    using elapse_add [of 0 100 "mount hello True"] a0 hello_100 by simp
  show a2: "elapse 200 (mount hello True) = hello_at VC 2 200"
    using elapse_add [of 100 100 "mount hello True"] a1 hello_200 by simp
  show a3: "elapse 300 (mount hello True) = hello_at VC 3 300"
    using elapse_add [of 200 100 "mount hello True"] a2 hello_300 by simp
  show a4: "elapse 400 (mount hello True) = hello_at VH 4 400"
    using elapse_add [of 300 100 "mount hello True"] a3 hello_400 by simp
  show "elapse 500 (mount hello True) = hello_done 500"
    using elapse_add [of 400 100 "mount hello True"] a4 hello_500 by simp
qed

lemma hello_rest: "elapse (500 + n) (mount hello True) = hello_done (500 + n)"
  using elapse_idle [of "hello_done 500" n]
  by (simp add: elapse_add hello_run(6)) (simp add: hello_done_def)

lemma hello_late_start:
  "update_props None True (update_props (Some hello) False (mount [] False)) = mount hello True"
  by (simp add: animator_defs hello_units resolve_hello)

lemma resolve_hello_word: "map resolve (units ''hello'') = [VH, VE, VC, VC, VH]"
  by (simp add: units_def resolve_hello)

subsection \<open>C2: the run on hello\<close>

text \<open>
  C2: the component is mounted with the speaking flag true and the five tokens h, e, l, l, o.
  Sampled at 0, 100, 200, 300 and 400 ms the mouth shows the shapes of h, e, l, l, o in this
  order, which are \<open>VH\<close>, \<open>VE\<close>, \<open>VC\<close>, \<open>VC\<close>, \<open>VH\<close>; at 500 ms and at every later time,
  with the flag still true and the same tokens, it shows rest \<open>VX\<close>. Mounting the component
  idle and empty, passing the five tokens and then raising the flag leads to the same state
  as mounting it speaking with the tokens.
\<close>

theorem hello_visemes:
  "map (\<lambda>t. currentViseme (elapse t (mount hello True))) [0, 100, 200, 300, 400]
     = [VH, VE, VC, VC, VH]
   \<and> map resolve (units ''hello'') = [VH, VE, VC, VC, VH]
   \<and> currentViseme (elapse (500 + n) (mount hello True)) = VX
   \<and> isSpeaking (elapse (500 + n) (mount hello True))
   \<and> textChunks (elapse (500 + n) (mount hello True)) = hello
   \<and> update_props None True (update_props (Some hello) False (mount [] False)) = mount hello True"
  using resolve_hello_word hello_late_start
  by (simp add: hello_run hello_rest hello_at_def hello_done_def)

subsection \<open>C3: a token appended after the buffer was exhausted\<close>

lemma append_x: "update_props (Some hello_x) True (hello_done 500) =
    \<lparr>textChunks = hello_x, isSpeaking = True, currentViseme = VH, chunkIndex = 4,
      visemeTimer = Some (600, 4, 6), clock = 500\<rparr>"
  by (simp add: animator_defs hello_done_def hello_x_units resolve_hello)

lemma append_x_tick: "elapse 100 (update_props (Some hello_x) True (hello_done 500)) =
    \<lparr>textChunks = hello_x, isSpeaking = True, currentViseme = VC, chunkIndex = 5,
      visemeTimer = Some (700, 5, 6), clock = 600\<rparr>"
proof -
  let ?s = "\<lparr>textChunks = hello_x, isSpeaking = True, currentViseme = VH, chunkIndex = 4,
      visemeTimer = Some (600, 4, 6), clock = 500\<rparr>"
  have "elapse 100 ?s = timer_callback 4 6 (?s\<lparr>clock := 600, visemeTimer := None\<rparr>)"
    by (rule elapse_fire) simp_all
  also have "\<dots> = \<lparr>textChunks = hello_x, isSpeaking = True, currentViseme = VC, chunkIndex = 5,
      visemeTimer = Some (700, 5, 6), clock = 600\<rparr>"
    by (simp add: animator_defs hello_x_units resolve_hello)
  finally show ?thesis by (simp add: append_x)
qed

text \<open>
  In general: when the cursor stands on the last chunk of the buffer and a token is appended
  while the component is speaking, the viseme effect publishes the shape of that last chunk
  and leaves the cursor where it is.
\<close>

lemma append_replays_last:
  assumes "isSpeaking s" and "textChunks s = cs @ [c # rest]"
    and "chunkIndex s = length cs"
  shows "currentViseme (update_props (Some (textChunks s @ [t])) True s) = resolve c"
    and "chunkIndex (update_props (Some (textChunks s @ [t])) True s) = chunkIndex s"
  using assms
  by (simp_all add: update_props_def commit_def run_effects_def Let_def viseme_effect_def
      processChunks_def reset_effect_def nth_append)

text \<open>
  C3 (what the code does at the failing input): after the five tokens of \<open>hello\<close> have been
  played the cursor still stands on the last one (index 4) and the mouth is at rest. When the
  token x is appended at 500 ms, the viseme effect runs with that cursor and publishes the
  shape of the token o a second time, at once; the shape of x follows 100 ms later.
\<close>

theorem append_after_exhaustion_replays_last_token:
  "elapse 500 (mount hello True) = hello_done 500
   \<and> currentViseme (hello_done 500) = VX \<and> chunkIndex (hello_done 500) = 4
   \<and> currentViseme (update_props (Some (hello @ [units ''x''])) True (hello_done 500)) = VH
   \<and> resolve (of_char (CHR ''o'')) = VH
   \<and> clock (update_props (Some (hello @ [units ''x''])) True (hello_done 500)) = 500
   \<and> currentViseme (elapse 100 (update_props (Some (hello @ [units ''x''])) True (hello_done 500)))
       = VC
   \<and> resolve (of_char (CHR ''x'')) = VC"
proof -
  have "resolve (of_char (CHR ''o'')) = VH" "resolve (of_char (CHR ''x'')) = VC"
    by (simp_all add: resolve_hello)
  then show ?thesis
    using append_x append_x_tick hello_run(6) by (simp add: hello_x_def hello_done_def)
qed

subsection \<open>C4: when the cursor goes back to zero\<close>

lemma hello_lowered:
  "update_props None False (hello_at VC 2 200) =
     \<lparr>textChunks = hello, isSpeaking = False, currentViseme = VX, chunkIndex = 0,
      visemeTimer = None, clock = 200\<rparr>"
  by (simp add: animator_defs hello_at_def)

text \<open>
  C4 (what the code does at the failing input): the component is mounted speaking with the
  five tokens of \<open>hello\<close>; after two ticks the cursor is 2. Then the speaking flag is lowered
  and the same array is passed. The reset effect runs, since \<open>isSpeaking\<close> changed, and its
  guard holds, since the flag is false: the cursor goes to zero at once, although the array
  is not a new one, the flag did not go from false to true, and nothing was reset.
\<close>

theorem cursor_reset_when_flag_lowered:
  "isSpeaking (elapse 200 (mount hello True))
   \<and> chunkIndex (elapse 200 (mount hello True)) = 2
   \<and> textChunks (update_props None False (elapse 200 (mount hello True))) = hello
   \<and> \<not> isSpeaking (update_props None False (elapse 200 (mount hello True)))
   \<and> chunkIndex (update_props None False (elapse 200 (mount hello True))) = 0"
  by (simp add: hello_run(3) hello_lowered) (simp add: hello_at_def)

text \<open>
  The part of C4 about ticks holds of the code: the passing of time never moves the cursor
  back (\<open>elapse_chunkIndex\<close>), and the tick that played the last token of \<open>hello\<close> leaves it
  on that token.
\<close>

lemma cursor_after_last_tick: "chunkIndex (elapse 500 (mount hello True)) = 4"
  by (simp add: hello_run(6) hello_done_def)

subsection \<open>The invariant of the idle component\<close>

lemma idle_inv_speaking: "isSpeaking s \<Longrightarrow> idle_inv s"
  by (simp add: idle_inv_def)

lemma idle_inv_mount: "idle_inv (mount chunks speaking)"
proof (cases speaking)
  case True
  then show ?thesis by (simp add: idle_inv_speaking mount_def commit_frame)
next
  case False
  then show ?thesis
    by (simp add: idle_inv_def mount_def commit_def run_effects_def Let_def viseme_effect_def
        reset_effect_def isSpeaking_effect_def)
qed

lemma idle_inv_update_props:
  assumes "idle_inv s"
  shows "idle_inv (update_props chunks speaking s)"
proof (cases speaking)
  case True
  then show ?thesis by (simp add: idle_inv_speaking update_props_frame)
next
  case False
  show ?thesis
  proof (cases "chunks = None \<and> \<not> isSpeaking s")
    case True
    with False have "update_props chunks speaking s = s"
      by (simp add: update_props_def commit_def run_effects_def)
    with assms show ?thesis by simp
  next
    case nochange: False
    with False show ?thesis
      by (auto simp: idle_inv_def update_props_def commit_def run_effects_def Let_def
          viseme_effect_def reset_effect_def isSpeaking_effect_def)
  qed
qed

lemma idle_inv_elapse:
  assumes "idle_inv s"
  shows "idle_inv (elapse n s)"
proof (cases "isSpeaking s")
  case True
  then show ?thesis by (simp add: idle_inv_speaking elapse_frame)
next
  case False
  with assms have "visemeTimer s = None" by (simp add: idle_inv_def)
  then have "elapse n s = s\<lparr>clock := clock s + n\<rparr>" by (rule elapse_idle)
  with assms show ?thesis by (simp add: idle_inv_def)
qed

lemma idle_inv_step: "idle_inv s \<Longrightarrow> idle_inv (step e s)"
  by (cases e) (simp_all add: idle_inv_elapse idle_inv_update_props)

lemma idle_inv_run: "idle_inv s \<Longrightarrow> idle_inv (run s es)"
  unfolding run_def by (induction es arbitrary: s) (simp_all add: idle_inv_step)

lemma run_snoc: "run s (es @ [e]) = step e (run s es)"
  by (simp add: run_def)

subsection \<open>C5: at rest whenever not speaking\<close>

text \<open>
  C5: in every state reached from mounting by updates of the props and the passing of time,
  a false speaking flag means that the mouth is at rest \<open>VX\<close>, whatever the buffer holds.
  Lowering the flag puts the mouth at rest in the same instant (the clock does not move), and
  lowering it a second time leaves it at rest.
\<close>

theorem not_speaking_rest:
  "(\<not> isSpeaking (run (mount chunks speaking) es) \<longrightarrow>
      currentViseme (run (mount chunks speaking) es) = VX)
   \<and> currentViseme (update_props c False (run (mount chunks speaking) es)) = VX
   \<and> clock (update_props c False (run (mount chunks speaking) es))
       = clock (run (mount chunks speaking) es)
   \<and> currentViseme (update_props c' False (update_props c False (run (mount chunks speaking) es)))
       = VX"
proof -
  let ?s = "run (mount chunks speaking) es"
  have inv: "idle_inv ?s" by (simp add: idle_inv_run idle_inv_mount)
  then have inv1: "idle_inv (update_props c False ?s)" by (rule idle_inv_update_props)
  then have inv2: "idle_inv (update_props c' False (update_props c False ?s))"
    by (rule idle_inv_update_props)
  from inv inv1 inv2 show ?thesis
    by (simp add: idle_inv_def update_props_frame)
qed

theorem not_speaking_rest_witness:
  "currentViseme (run (mount hello True) [Elapse 100]) = VE
   \<and> \<not> isSpeaking (run (mount hello True) [Elapse 100, UpdateProps None False])
   \<and> currentViseme (run (mount hello True) [Elapse 100, UpdateProps None False]) = VX"
proof -
  have a: "currentViseme (run (mount hello True) [Elapse 100]) = VE"
    by (simp add: run_def hello_run(2) hello_at_def)
  have b: "\<not> isSpeaking (run (mount hello True) [Elapse 100, UpdateProps None False])"
    by (simp add: run_def update_props_frame)
  from a b not_speaking_rest [of hello True "[Elapse 100, UpdateProps None False]"]
  show ?thesis by blast
qed

section \<open>Facts about the producer\<close>

lemma append_chunk_length: "length (append_chunk prev newToken) \<le> 20"
  by (simp add: append_chunk_def slice_last_def maxChunks_def Let_def)

lemma append_chunk_eq: "append_chunk prev newToken = slice_last 20 (prev @ [newToken])"
  by (simp add: append_chunk_def slice_last_def maxChunks_def Let_def)

lemma streamNextToken_chunks:
  "length (app_textChunks s) \<le> 20 \<Longrightarrow> length (app_textChunks (streamNextToken sp speed s)) \<le> 20"
  by (simp add: streamNextToken_def lower_flag_def Let_def append_chunk_length)

lemma raise_flag_chunks:
  "length (app_textChunks s) \<le> 20 \<Longrightarrow> length (app_textChunks (raise_flag s)) \<le> 20"
  by (simp add: raise_flag_def streamNextToken_chunks)

lemma app_step_chunks:
  "length (app_textChunks s) \<le> 20 \<Longrightarrow> length (app_textChunks (app_step e s)) \<le> 20"
  by (cases e)
    (auto simp: handleTextChange_def processText_def Let_def raise_flag_chunks handleSpeedChange_def
      handleReset_def lower_flag_def typing_timeout_callback_def streamNextToken_chunks
      split: option.splits)

lemma app_run_chunks:
  "length (app_textChunks s) \<le> 20 \<Longrightarrow> length (app_textChunks (app_run s es)) \<le> 20"
  unfolding app_run_def by (induction es arbitrary: s) (simp_all add: app_step_chunks)

subsection \<open>C9: the buffer handed to the avatar holds at most 20 chunks\<close>

text \<open>
  C9: the updater that \<open>streamNextToken\<close> passes to \<open>setTextChunks\<close> returns at most 20
  chunks, namely the last 20 of the old chunks followed by the new token: below 20 old chunks
  the token is appended, from 20 old chunks on the oldest are dropped. Hence in every state
  the producer reaches from its initial state the buffer handed to the avatar has at most 20
  elements; it is not append-only.
\<close>

theorem textChunks_at_most_20:
  "length (append_chunk prev newToken) \<le> 20
   \<and> append_chunk prev newToken = slice_last 20 (prev @ [newToken])
   \<and> (length prev < 20 \<longrightarrow> append_chunk prev newToken = prev @ [newToken])
   \<and> (20 \<le> length prev \<longrightarrow> append_chunk prev newToken = drop (length prev - 19) prev @ [newToken])
   \<and> length (app_textChunks (app_run app_init es)) \<le> 20"
proof -
  have "length (app_textChunks (app_run app_init es)) \<le> 20"
    by (rule app_run_chunks) (simp add: app_init_def)
  then show ?thesis
    by (simp add: append_chunk_length append_chunk_eq slice_last_def)
qed

lemma streamNextToken_flag:
  "tokensToStreamRef s \<noteq> [] \<Longrightarrow> app_isSpeaking (streamNextToken sp speed s) = app_isSpeaking s"
  by (simp add: streamNextToken_def Let_def)

lemma streamNextToken_reschedules:
  "tokensToStreamRef s \<noteq> [] \<Longrightarrow> streamTimerRef (streamNextToken True speed s) = Some (True, speed)"
  by (simp add: streamNextToken_def Let_def)

lemma streamNextToken_waits:
  "tokensToStreamRef s \<noteq> [] \<Longrightarrow> length (tokensToStreamRef s) \<le> currentTokenRef s \<Longrightarrow>
   streamNextToken True speed s = s\<lparr>streamTimerRef := Some (True, speed)\<rparr>"
  by (simp add: streamNextToken_def Let_def)

lemma raise_flag_flag: "app_isSpeaking s \<Longrightarrow> app_isSpeaking (raise_flag s)"
  by (simp add: raise_flag_def)

lemma handleTextChange_flag: "app_isSpeaking s \<Longrightarrow> app_isSpeaking (handleTextChange newText s)"
  by (simp add: handleTextChange_def processText_def Let_def raise_flag_def)

lemma handleTextChange_timeout: "typingTimeoutRef (handleTextChange newText s) = Some 1500"
  by (simp add: handleTextChange_def processText_def Let_def raise_flag_def streamNextToken_def
      lower_flag_def)

lemma app_step_flag:
  assumes "tokensToStreamRef s \<noteq> []" and "app_isSpeaking s" and "\<not> app_isSpeaking (app_step e s)"
  shows "e = TypingTimeoutFires \<or> e = Reset"
proof (cases e)
  case (TextChange newText)
  with assms(2,3) show ?thesis by (simp add: handleTextChange_flag)
next
  case (SpeedChange v)
  with assms(2,3) show ?thesis by (simp add: handleSpeedChange_def)
next
  case StreamTimerFires
  with assms show ?thesis
    by (auto simp: streamNextToken_flag split: option.splits prod.splits)
qed simp_all

subsection \<open>C10: the token stream does not lower the speaking flag\<close>

text \<open>
  C10: when the token stream of the producer is not empty, \<open>streamNextToken\<close> leaves the
  speaking flag as it is and schedules itself again; once all tokens are streamed it changes
  nothing but the timeout it waits on. The inactivity timeout is set with a delay of 1500 ms.
  With a non-empty token stream, an event of the producer that lowers the flag is the firing
  of the inactivity timeout or a reset.
\<close>

theorem stream_never_lowers_flag:
  "(tokensToStreamRef s \<noteq> [] \<longrightarrow>
      app_isSpeaking (streamNextToken speaking speed s) = app_isSpeaking s
      \<and> streamTimerRef (streamNextToken True speed s) = Some (True, speed)
      \<and> (length (tokensToStreamRef s) \<le> currentTokenRef s \<longrightarrow>
           streamNextToken True speed s = s\<lparr>streamTimerRef := Some (True, speed)\<rparr>))
   \<and> typingTimeoutRef (handleTextChange newText s) = Some 1500
   \<and> (tokensToStreamRef s \<noteq> [] \<and> app_isSpeaking s \<and> \<not> app_isSpeaking (app_step e s) \<longrightarrow>
        e = TypingTimeoutFires \<or> e = Reset)"
  using streamNextToken_flag [of s speaking speed] streamNextToken_reschedules [of s speed]
    streamNextToken_waits [of s speed] app_step_flag [of s e]
    handleTextChange_timeout [of newText s]
  by blast

lemma typed_hi_eq:
  "typed_hi = \<lparr>app_textChunks = [''h'', ''i''], inputText = ''hi'', app_isSpeaking = True,
      streamingSpeed = 100, streamTimerRef = Some (True, 100), currentTokenRef = 2,
      tokensToStreamRef = [''h'', ''i''], typingTimeoutRef = Some 1500, lastTypedTextRef = ''hi''\<rparr>"
  by code_simp

theorem stream_never_lowers_flag_witness:
  "tokensToStreamRef typed_hi \<noteq> [] \<and> app_isSpeaking typed_hi
   \<and> length (tokensToStreamRef typed_hi) \<le> currentTokenRef typed_hi
   \<and> streamNextToken True 100 typed_hi = typed_hi
   \<and> app_isSpeaking (app_step StreamTimerFires typed_hi)
   \<and> \<not> app_isSpeaking (app_step TypingTimeoutFires typed_hi)"
proof -
  have a: "tokensToStreamRef typed_hi \<noteq> []" "app_isSpeaking typed_hi"
    "length (tokensToStreamRef typed_hi) \<le> currentTokenRef typed_hi"
    by (simp_all add: typed_hi_eq)
  have b: "\<not> app_isSpeaking (app_step TypingTimeoutFires typed_hi)"
    by (simp add: typed_hi_eq typing_timeout_callback_def lower_flag_def)
  have c: "typed_hi\<lparr>streamTimerRef := Some (True, 100)\<rparr> = typed_hi"
    by (simp add: typed_hi_eq)
  have d: "app_isSpeaking (app_step StreamTimerFires typed_hi)"
    using stream_never_lowers_flag [of typed_hi _ _ _ StreamTimerFires] a by blast
  from a b c d stream_never_lowers_flag [of typed_hi True 100 "[]" TypingTimeoutFires]
  show ?thesis by simp
qed

theorem textChunks_at_most_20_witness:
  "length (replicate 19 ''a'') < 20
   \<and> append_chunk (replicate 19 ''a'') ''b'' = replicate 19 ''a'' @ [''b'']
   \<and> 20 \<le> length (''z'' # replicate 19 ''a'')
   \<and> append_chunk (''z'' # replicate 19 ''a'') ''b'' = replicate 19 ''a'' @ [''b'']"
proof -
  have p1: "length (replicate 19 ''a'') < 20" by simp
  have p2: "20 \<le> length (''z'' # replicate 19 ''a'')" by simp
  from textChunks_at_most_20 [of "replicate 19 ''a''" "''b''"] p1
  have c1: "append_chunk (replicate 19 ''a'') ''b'' = replicate 19 ''a'' @ [''b'']"
    by blast
  from textChunks_at_most_20 [of "''z'' # replicate 19 ''a''" "''b''"] p2
  have "append_chunk (''z'' # replicate 19 ''a'') ''b''
      = drop (length (''z'' # replicate 19 ''a'') - 19) (''z'' # replicate 19 ''a'') @ [''b'']"
    by blast
  then have c2: "append_chunk (''z'' # replicate 19 ''a'') ''b'' = replicate 19 ''a'' @ [''b'']"
    by simp
  from p1 p2 c1 c2 show ?thesis by blast
qed

section \<open>Facts about numbers and the blink cycle\<close>

lemma round_even_le: "q \<le> of_int k \<Longrightarrow> round_even q \<le> k"
proof -
  assume a: "q \<le> of_int k"
  then have f: "\<lfloor>q\<rfloor> \<le> k" by (simp add: floor_le_iff)
  show ?thesis
  proof (cases "\<lfloor>q\<rfloor> = k")
    case True
    with a have "q = of_int \<lfloor>q\<rfloor>" using of_int_floor_le [of q] by simp
    then have "q - of_int \<lfloor>q\<rfloor> = 0" by simp
    then show ?thesis using True by (simp add: round_even_def Let_def)
  next
    case False
    with f have "\<lfloor>q\<rfloor> + 1 \<le> k" by simp
    then show ?thesis using f by (simp add: round_even_def Let_def)
  qed
qed

lemma round_even_ge: "of_int k \<le> q \<Longrightarrow> k \<le> round_even q"
proof -
  assume "of_int k \<le> q"
  then have "k \<le> \<lfloor>q\<rfloor>" by (simp add: le_floor_iff)
  then show ?thesis by (simp add: round_even_def Let_def)
qed

lemma ulp_pos: "0 < ulp x"
  by (simp add: ulp_def)

lemma ilog2_le:
  assumes "0 < x" and "x < 2 ^ n"
  shows "ilog2 x < int n"
proof (cases "1 \<le> x")
  case True
  have "\<lfloor>x\<rfloor> < 2 ^ n" using assms(2) by (simp add: floor_less_iff)
  then have "bitlen \<lfloor>x\<rfloor> \<le> int n"
    by (simp add: bitlen_le_iff_power)
  with True show ?thesis by (simp add: ilog2_def)
next
  case False
  with assms(1) have "1 < 1 / x" by simp
  then have "0 < \<lceil>1 / x\<rceil> - 1" by (simp add: less_ceiling_iff)
  then have "0 < bitlen (\<lceil>1 / x\<rceil> - 1)"
    using bitlen_eq_zero_iff [of "\<lceil>1 / x\<rceil> - 1"] bitlen_nonneg [of "\<lceil>1 / x\<rceil> - 1"]
    by linarith
  with False show ?thesis by (simp add: ilog2_def)
qed

lemma powi_nonpos_cancel: "j \<le> 0 \<Longrightarrow> (2::rat) powi j * 2 ^ nat (- j) = 1"
  by (simp add: power_int_def power_mult_distrib [symmetric])

text \<open>Below \<open>2 ^ 53\<close> every integer lies on the grid of the doubles around \<open>x\<close>.\<close>

lemma ulp_int_multiple:
  assumes "\<bar>x\<bar> < 2 ^ 53" and "x \<noteq> 0"
  shows "\<exists>k::int. (of_int c :: rat) = of_int k * ulp x"
proof -
  let ?j = "max (ilog2 \<bar>x\<bar>) (- 1022) - 52"
  from assms have "ilog2 \<bar>x\<bar> < int 53" by (intro ilog2_le) simp_all
  then have j: "?j \<le> 0" by simp
  have "(2::rat) powi ?j * 2 ^ nat (- ?j) = 1"
    using j by (rule powi_nonpos_cancel)
  then have "(of_int c :: rat) = of_int (c * 2 ^ nat (- ?j)) * 2 powi ?j"
    by (simp add: mult.assoc mult.commute)
  then show ?thesis unfolding ulp_def by blast
qed

lemma fl_le_int:
  assumes "\<bar>x\<bar> < 2 ^ 53" and "x \<le> of_int c"
  shows "fl x \<le> of_int c"
proof (cases "x = 0")
  case True
  with assms(2) show ?thesis by (simp add: fl_def)
next
  case False
  from ulp_int_multiple [OF assms(1) False, of c]
  obtain k :: int where k: "(of_int c :: rat) = of_int k * ulp x" by blast
  with assms(2) have "x / ulp x \<le> of_int k"
    using ulp_pos [of x] by (simp add: pos_divide_le_eq)
  then have "round_even (x / ulp x) \<le> k" by (rule round_even_le)
  then have "(of_int (round_even (x / ulp x)) :: rat) \<le> of_int k" by simp
  then have "of_int (round_even (x / ulp x)) * ulp x \<le> of_int k * ulp x"
    using ulp_pos [of x] by (simp add: mult_right_mono)
  with k False show ?thesis by (simp add: fl_def)
qed

lemma fl_ge_int:
  assumes "\<bar>x\<bar> < 2 ^ 53" and "of_int c \<le> x"
  shows "of_int c \<le> fl x"
proof (cases "x = 0")
  case True
  with assms(2) show ?thesis by (simp add: fl_def)
next
  case False
  from ulp_int_multiple [OF assms(1) False, of c]
  obtain k :: int where k: "(of_int c :: rat) = of_int k * ulp x" by blast
  with assms(2) have "of_int k \<le> x / ulp x"
    using ulp_pos [of x] by (simp add: pos_le_divide_eq)
  then have "k \<le> round_even (x / ulp x)" by (rule round_even_ge)
  then have "(of_int k :: rat) \<le> of_int (round_even (x / ulp x))" by simp
  then have "of_int k * ulp x \<le> of_int (round_even (x / ulp x)) * ulp x"
    using ulp_pos [of x] by (simp add: mult_right_mono)
  with k False show ?thesis by (simp add: fl_def)
qed

lemma nextBlinkDelay_bounds:
  assumes "0 \<le> r" and "r < 1"
  shows "2000 \<le> nextBlinkDelay r" and "nextBlinkDelay r \<le> 5000"
proof -
  let ?p = "fl (r * 3000)"
  have r: "0 \<le> r * 3000" "r * 3000 \<le> 3000" using assms by simp_all
  then have a: "\<bar>r * 3000\<bar> < 2 ^ 53" by simp
  have "of_int 0 \<le> ?p" using a r(1) by (intro fl_ge_int) simp_all
  moreover have "?p \<le> of_int 3000" using a r(2) by (intro fl_le_int) simp_all
  ultimately have p: "0 \<le> ?p" "?p \<le> 3000" by simp_all
  then have b: "\<bar>?p + 2000\<bar> < 2 ^ 53" by simp
  have "of_int 2000 \<le> fl (?p + 2000)" using b p(1) by (intro fl_ge_int) simp_all
  then show "2000 \<le> nextBlinkDelay r" by (simp add: nextBlinkDelay_def fadd_def fmul_def)
  have "fl (?p + 2000) \<le> of_int 5000" using b p(2) by (intro fl_le_int) simp_all
  then show "nextBlinkDelay r \<le> 5000" by (simp add: nextBlinkDelay_def fadd_def fmul_def)
qed

lemma nextBlinkDelay_max: "nextBlinkDelay (1 - 1 / 2 ^ 53) = 5000"
  by code_simp

lemma nextBlinkDelay_max': "nextBlinkDelay (1 - 1 / 2 ^ 52) = 5000"
  by code_simp

lemma nextBlinkDelay_half: "nextBlinkDelay (1 / 2) = 3500"
  by code_simp

lemma is_double_max: "is_double (1 - 1 / 2 ^ 53)"
  by code_simp

lemma blink_mount_eq:
  "blink_mount r =
     \<lparr>isBlinking = False, blinkIntervalRef = Some 1,
      blink_timers = [(1, nextBlinkDelay r, BlinkStart)], next_timer_id = 2, blink_clock = 0\<rparr>"
  by (simp add: blink_mount_def scheduleNextBlink_def setTimeout_def)

lemma blink_start_eq:
  "fire_next r' \<lparr>isBlinking = False, blinkIntervalRef = Some i,
      blink_timers = [(i, due, BlinkStart)], next_timer_id = n, blink_clock = t\<rparr>
   = \<lparr>isBlinking = True, blinkIntervalRef = Some i,
      blink_timers = [(n, due + 150, BlinkEnd)], next_timer_id = n + 1, blink_clock = due\<rparr>"
  by (simp add: fire_next_def blink_run_def setTimeout_def)

lemma blink_end_eq:
  "fire_next r' \<lparr>isBlinking = True, blinkIntervalRef = Some i,
      blink_timers = [(n, due, BlinkEnd)], next_timer_id = n + 1, blink_clock = t\<rparr>
   = \<lparr>isBlinking = False, blinkIntervalRef = Some (n + 1),
      blink_timers = [(n + 1, due + nextBlinkDelay r', BlinkStart)], next_timer_id = n + 2,
      blink_clock = due\<rparr>"
  by (simp add: fire_next_def blink_run_def scheduleNextBlink_def setTimeout_def clearTimeout_def)

lemma scheduleNextBlink_cancels:
  assumes "blinkIntervalRef s = Some i" and "i < next_timer_id s"
  shows "i \<notin> fst ` set (blink_timers (scheduleNextBlink r s))"
  using assms by (auto simp: scheduleNextBlink_def setTimeout_def clearTimeout_def)

lemma scheduleNextBlink_sets:
  "blinkIntervalRef (scheduleNextBlink r s) = Some (next_timer_id s)
   \<and> (next_timer_id s, blink_clock s + nextBlinkDelay r, BlinkStart)
        \<in> set (blink_timers (scheduleNextBlink r s))"
  by (auto simp: scheduleNextBlink_def setTimeout_def clearTimeout_def split: option.splits)

subsection \<open>C7: the blink cycle\<close>

text \<open>
  C7, as stated, fails at the upper end of the interval: for the largest double below 1 the
  product rounds to \<open>3000 - 2 ^ -41\<close> and the sum, a tie between two doubles, rounds to
  5000, which is not below 5000. The same happens for \<open>1 - 2 ^ -52\<close>.
\<close>

theorem blink_delay_upper_bound_counterexample:
  "is_double (1 - 1 / 2 ^ 53) \<and> (0::rat) \<le> 1 - 1 / 2 ^ 53 \<and> (1 - 1 / 2 ^ 53 :: rat) < 1
   \<and> nextBlinkDelay (1 - 1 / 2 ^ 53) = 5000 \<and> \<not> nextBlinkDelay (1 - 1 / 2 ^ 53) < 5000
   \<and> nextBlinkDelay (1 - 1 / 2 ^ 52) = 5000"
  using is_double_max nextBlinkDelay_max nextBlinkDelay_max' by simp

text \<open>
  C7 (amended): for every value \<open>r\<close> of the random source with \<open>0 \<le> r < 1\<close> the
  scheduled delay is the double that \<open>r * 3000 + 2000\<close> evaluates to and lies between 2000
  and 5000 ms, both ends included. Mounting sets the one timeout with this delay. When it
  fires, \<open>isBlinking\<close> becomes true and stays so for exactly 150 ms; then it becomes false
  and the cycle schedules the next blink with a fresh delay. Scheduling first cancels the
  timeout that \<open>blinkIntervalRef\<close> refers to.
\<close>

theorem blink_cycle:
  "0 \<le> r \<Longrightarrow> r < 1 \<Longrightarrow>
   nextBlinkDelay r = fl (fl (r * 3000) + 2000)
   \<and> 2000 \<le> nextBlinkDelay r \<and> nextBlinkDelay r \<le> 5000
   \<and> blink_mount r =
        \<lparr>isBlinking = False, blinkIntervalRef = Some 1,
         blink_timers = [(1, nextBlinkDelay r, BlinkStart)], next_timer_id = 2, blink_clock = 0\<rparr>
   \<and> fire_next r' (blink_mount r) =
        \<lparr>isBlinking = True, blinkIntervalRef = Some 1,
         blink_timers = [(2, nextBlinkDelay r + 150, BlinkEnd)], next_timer_id = 3,
         blink_clock = nextBlinkDelay r\<rparr>
   \<and> fire_next r' (fire_next r' (blink_mount r)) =
        \<lparr>isBlinking = False, blinkIntervalRef = Some 3,
         blink_timers = [(3, nextBlinkDelay r + 150 + nextBlinkDelay r', BlinkStart)],
         next_timer_id = 4, blink_clock = nextBlinkDelay r + 150\<rparr>
   \<and> (blinkIntervalRef s = Some i \<and> i < next_timer_id s \<longrightarrow>
        i \<notin> fst ` set (blink_timers (scheduleNextBlink r s)))"
proof -
  assume r: "0 \<le> r" "r < 1"
  have a: "fire_next r' (blink_mount r) =
        \<lparr>isBlinking = True, blinkIntervalRef = Some 1,
         blink_timers = [(2, nextBlinkDelay r + 150, BlinkEnd)], next_timer_id = 3,
         blink_clock = nextBlinkDelay r\<rparr>"
    using blink_start_eq [of r' 1 "nextBlinkDelay r" 2 0] by (simp add: blink_mount_eq)
  have b: "fire_next r' (fire_next r' (blink_mount r)) =
        \<lparr>isBlinking = False, blinkIntervalRef = Some 3,
         blink_timers = [(3, nextBlinkDelay r + 150 + nextBlinkDelay r', BlinkStart)],
         next_timer_id = 4, blink_clock = nextBlinkDelay r + 150\<rparr>"
    using blink_end_eq [of r' 1 2 "nextBlinkDelay r + 150" "nextBlinkDelay r"] by (simp add: a)
  have c: "nextBlinkDelay r = fl (fl (r * 3000) + 2000)"
    by (simp add: nextBlinkDelay_def fadd_def fmul_def)
  from r a b c nextBlinkDelay_bounds [of r] scheduleNextBlink_cancels [of s i r] blink_mount_eq [of r]
  show ?thesis by blast
qed

theorem blink_cycle_witness:
  "(0::rat) \<le> 1 / 2 \<and> (1 / 2 :: rat) < 1 \<and> nextBlinkDelay (1 / 2) = 3500
   \<and> isBlinking (fire_next (1 / 4) (blink_mount (1 / 2)))
   \<and> blink_clock (fire_next (1 / 4) (blink_mount (1 / 2))) = 3500
   \<and> \<not> isBlinking (fire_next (1 / 4) (fire_next (1 / 4) (blink_mount (1 / 2))))
   \<and> blink_clock (fire_next (1 / 4) (fire_next (1 / 4) (blink_mount (1 / 2)))) = 3650
   \<and> blinkIntervalRef (blink_mount (1 / 2)) = Some 1
   \<and> 1 < next_timer_id (blink_mount (1 / 2))
   \<and> 1 \<in> fst ` set (blink_timers (blink_mount (1 / 2)))
   \<and> 1 \<notin> fst ` set (blink_timers (scheduleNextBlink (1 / 2) (blink_mount (1 / 2))))"
proof -
  have p: "(0::rat) \<le> 1 / 2" "(1 / 2 :: rat) < 1" by simp_all
  have q: "blinkIntervalRef (blink_mount (1 / 2)) = Some 1 \<and> 1 < next_timer_id (blink_mount (1 / 2))"
    by (simp add: blink_mount_eq)
  have q': "1 \<in> fst ` set (blink_timers (blink_mount (1 / 2)))"
    by (simp add: blink_mount_eq)
  note t = blink_cycle [OF p, of "1 / 4" "blink_mount (1 / 2)" 1]
  from t have "blinkIntervalRef (blink_mount (1 / 2)) = Some 1 \<and> 1 < next_timer_id (blink_mount (1 / 2))
      \<longrightarrow> 1 \<notin> fst ` set (blink_timers (scheduleNextBlink (1 / 2) (blink_mount (1 / 2))))"
    by (elim conjE)
  from this q have c: "1 \<notin> fst ` set (blink_timers (scheduleNextBlink (1 / 2) (blink_mount (1 / 2))))"
    by (rule mp)
  from t have e1: "fire_next (1 / 4) (blink_mount (1 / 2)) =
        \<lparr>isBlinking = True, blinkIntervalRef = Some 1,
         blink_timers = [(2, nextBlinkDelay (1 / 2) + 150, BlinkEnd)], next_timer_id = 3,
         blink_clock = nextBlinkDelay (1 / 2)\<rparr>"
    by (elim conjE)
  from t have e2: "fire_next (1 / 4) (fire_next (1 / 4) (blink_mount (1 / 2))) =
        \<lparr>isBlinking = False, blinkIntervalRef = Some 3,
         blink_timers = [(3, nextBlinkDelay (1 / 2) + 150 + nextBlinkDelay (1 / 4), BlinkStart)],
         next_timer_id = 4, blink_clock = nextBlinkDelay (1 / 2) + 150\<rparr>"
    by (elim conjE)
  have "isBlinking (fire_next (1 / 4) (blink_mount (1 / 2)))"
    "blink_clock (fire_next (1 / 4) (blink_mount (1 / 2))) = 3500"
    by (simp_all only: e1 blinker.simps nextBlinkDelay_half)
  moreover have "\<not> isBlinking (fire_next (1 / 4) (fire_next (1 / 4) (blink_mount (1 / 2))))"
    "blink_clock (fire_next (1 / 4) (fire_next (1 / 4) (blink_mount (1 / 2)))) = 3650"
    by (simp_all only: e2 blinker.simps nextBlinkDelay_half) simp_all
  ultimately show ?thesis using p q q' c nextBlinkDelay_half by (intro conjI) simp_all
qed

section \<open>Facts about the eye geometry\<close>

subsection \<open>The numbers of the eye geometry, operation by operation\<close>

lemma eye_numbers_1:
  "fl (5 / 4) = 5 / 4"
  "fmul 18 (5 / 4) = 45 / 2"
  "fmul 24 (5 / 4) = 30"
  "fdiv (45 / 2) 2 = 45 / 4"
  "fsub (- 20) (45 / 4) = - (125 / 4)"
  "fl (1 / 5) = 3602879701896397 / 18014398509481984"
  by code_simp+

lemma eye_numbers_2:
  "fmul 30 (3602879701896397 / 18014398509481984) = 6"
  "fsub (- 8) 6 = - 14"
  "fl (4 / 5) = 3602879701896397 / 4503599627370496"
  "fmul 30 (3602879701896397 / 4503599627370496) = 24"
  "fsub (- 8) 24 = - 32"
  "fadd (- 20) (45 / 4) = - (35 / 4)"
  by code_simp+

lemma eye_numbers_3:
  "fl (7 / 20) = 3152519739159347 / 9007199254740992"
  "fmul 30 (3152519739159347 / 9007199254740992) = 21 / 2"
  "fadd (- 8) (21 / 2) = 5 / 2"
  "fdiv 18 2 = 9"
  "fsub (- 20) 9 = - 29"
  "fmul 18 (3602879701896397 / 18014398509481984) = 8106479329266893 / 2251799813685248"
  by code_simp+

lemma eye_numbers_4:
  "fsub (- 20) (8106479329266893 / 2251799813685248) = - (3321404725185741 / 140737488355328)"
  "fl (3 / 5) = 5404319552844595 / 9007199254740992"
  "fmul 24 (5404319552844595 / 9007199254740992) = 2026619832316723 / 140737488355328"
  "fsub (- 8) (2026619832316723 / 140737488355328) = - (3152519739159347 / 140737488355328)"
  "fmul 24 (3602879701896397 / 18014398509481984) = 1351079888211149 / 281474976710656"
  "fsub (- 8) (1351079888211149 / 281474976710656) = - (3602879701896397 / 281474976710656)"
  by code_simp+

lemma eye_numbers_5:
  "fadd (- 20) (8106479329266893 / 2251799813685248) = - (2308094809027379 / 140737488355328)"
  "fadd (- 20) 9 = - 11"
  "fl (1 / 2) = 1 / 2"
  "fmul 24 (1 / 2) = 12"
  "fsub (- 8) 12 = - 20"
  "fadd (- 8) (2026619832316723 / 140737488355328) = 900719925474099 / 140737488355328"
  by code_simp+

lemma eye_numbers_6:
  "fmul 24 (3602879701896397 / 4503599627370496) = 1351079888211149 / 70368744177664"
  "fsub (- 8) (1351079888211149 / 70368744177664) = - (1914029841632461 / 70368744177664)"
  "fmul 24 (3152519739159347 / 9007199254740992) = 1182194902184755 / 140737488355328"
  "fadd (- 8) (1182194902184755 / 140737488355328) = 56294995342131 / 140737488355328"
  "fmul (45 / 4) 2 = 45 / 2"
  "fsub 20 (45 / 4) = 35 / 4"
  by code_simp+

lemma eye_numbers_7:
  "fadd 20 (45 / 4) = 125 / 4"
  "fsub 20 9 = 11"
  "fsub 20 (8106479329266893 / 2251799813685248) = 2308094809027379 / 140737488355328"
  "fadd 20 (8106479329266893 / 2251799813685248) = 3321404725185741 / 140737488355328"
  "fadd 20 9 = 29"
  "fl (9 / 10) = 8106479329266893 / 9007199254740992"
  by code_simp+

lemma eye_numbers_8:
  "fmul 18 (8106479329266893 / 9007199254740992) = 4559894622712627 / 281474976710656"
  "fdiv (4559894622712627 / 281474976710656) 2 = 4559894622712627 / 562949953421312"
  "fsub (- 20) (4559894622712627 / 562949953421312) = - (3954723422784717 / 140737488355328)"
  "fl (3 / 10) = 5404319552844595 / 18014398509481984"
  "fmul (4559894622712627 / 281474976710656) (5404319552844595 / 18014398509481984) = 341992096703447 / 70368744177664"
  "fsub (- (3152519739159347 / 140737488355328)) (341992096703447 / 70368744177664) = - (3836503932566241 / 140737488355328)"
  by code_simp+

lemma eye_numbers_9:
  "fadd (- 20) (4559894622712627 / 562949953421312) = - (6699104445713613 / 562949953421312)"
  "fsub 20 (4559894622712627 / 562949953421312) = 6699104445713613 / 562949953421312"
  "fadd 20 (4559894622712627 / 562949953421312) = 3954723422784717 / 140737488355328"
  "fl (11 / 10) = 2476979795053773 / 2251799813685248"
  "fmul 24 (2476979795053773 / 2251799813685248) = 7430939385161319 / 281474976710656"
  "fsub (- 8) (7430939385161319 / 281474976710656) = - (1210342399855821 / 35184372088832)"
  by code_simp+

lemma eye_numbers_10:
  "fl (13 / 10) = 5854679515581645 / 4503599627370496"
  "fmul 18 (5854679515581645 / 4503599627370496) = 6586514455029351 / 281474976710656"
  "fdiv (6586514455029351 / 281474976710656) 2 = 6586514455029351 / 562949953421312"
  "fsub (- 20) (6586514455029351 / 562949953421312) = - (2230689190431949 / 70368744177664)"
  "fl (2 / 5) = 3602879701896397 / 9007199254740992"
  "fmul (6586514455029351 / 281474976710656) (3602879701896397 / 9007199254740992) = 5269211564023481 / 562949953421312"
  by code_simp+

lemma eye_numbers_11:
  "fsub (- (1210342399855821 / 35184372088832)) (5269211564023481 / 562949953421312) = - (3079336245214577 / 70368744177664)"
  "fadd (- 20) (6586514455029351 / 562949953421312) = - (4672484613396889 / 562949953421312)"
  "fsub 20 (6586514455029351 / 562949953421312) = 4672484613396889 / 562949953421312"
  "fadd 20 (6586514455029351 / 562949953421312) = 2230689190431949 / 70368744177664"
  "fmul (- 24) (3602879701896397 / 18014398509481984) = - (1351079888211149 / 281474976710656)"
  "fl (3 / 20) = 5404319552844595 / 36028797018963968"
  by code_simp+

lemma eye_numbers_12:
  "fmul 24 (5404319552844595 / 36028797018963968) = 2026619832316723 / 562949953421312"
  "fadd (- 8) (- (1351079888211149 / 281474976710656)) = - (3602879701896397 / 281474976710656)"
  "fadd (- 8) (2026619832316723 / 562949953421312) = - (2476979795053773 / 562949953421312)"
  "fadd (- 20) 0 = - 20"
  "fadd 20 0 = 20"
  "fmul 18 (5404319552844595 / 36028797018963968) = 6079859496950169 / 2251799813685248"
  by code_simp+

lemma eye_numbers_13:
  "fl (39 / 200) = 3512807709348987 / 18014398509481984"
  "fmul 18 (3512807709348987 / 18014398509481984) = 7903817346035221 / 2251799813685248"
  by code_simp+

lemmas eye_numbers =
  eye_numbers_1 eye_numbers_2 eye_numbers_3 eye_numbers_4 eye_numbers_5 eye_numbers_6
  eye_numbers_7 eye_numbers_8 eye_numbers_9 eye_numbers_10 eye_numbers_11
  eye_numbers_12 eye_numbers_13

subsection \<open>The paths, emotion by emotion\<close>

lemma open_eye_left:
  "map (\<lambda>e. getEyePath e True False) all_emotions =
     [[MoveTo (- (125 / 4)) (- 14), QuadTo (- 20) (- 32) (- (35 / 4)) (- 14),
        QuadTo (- 20) (5 / 2) (- (125 / 4)) (- 14), ClosePath],
       [MoveTo (- 29) (- 8),
        QuadTo (- (3321404725185741 / 140737488355328)) (- (3152519739159347 / 140737488355328)) (- 20) (- (3602879701896397 / 281474976710656)),
        QuadTo (- (2308094809027379 / 140737488355328)) (- (3152519739159347 / 140737488355328)) (- 11) (- 8),
        LineTo (- 29) (- 8), ClosePath],
       [MoveTo (- 29) (- 8), QuadTo (- 20) (- 20) (- 11) (- 8),
        QuadTo (- 20) (900719925474099 / 140737488355328) (- 29) (- 8), ClosePath],
       [MoveTo (- 29) (- (3602879701896397 / 281474976710656)),
        QuadTo (- 20) (- (1914029841632461 / 70368744177664)) (- 11) (- (3602879701896397 / 281474976710656)),
        QuadTo (- 20) (56294995342131 / 140737488355328) (- 29) (- (3602879701896397 / 281474976710656)),
        ClosePath],
       [MoveTo (- 20) (- 8), MoveBy (- (45 / 4)) 0,
        ArcBy (45 / 4) (45 / 4) 0 True False (45 / 2) 0,
        ArcBy (45 / 4) (45 / 4) 0 True False (- (45 / 2)) 0]]"
  by (simp add: all_emotions_def getEyePath_def Let_def eye_outline_width_def eye_outline_height_def
      eyeOffsetX_def eyeOffsetY_def eyeWidth_def eyeHeight_def eye_numbers)

lemma open_eye_right:
  "map (\<lambda>e. getEyePath e False False) all_emotions =
     [[MoveTo (35 / 4) (- 14), QuadTo 20 (- 32) (125 / 4) (- 14),
        QuadTo 20 (5 / 2) (35 / 4) (- 14), ClosePath],
       [MoveTo 11 (- 8),
        QuadTo (2308094809027379 / 140737488355328) (- (3152519739159347 / 140737488355328)) 20 (- (3602879701896397 / 281474976710656)),
        QuadTo (3321404725185741 / 140737488355328) (- (3152519739159347 / 140737488355328)) 29 (- 8),
        LineTo 11 (- 8), ClosePath],
       [MoveTo 11 (- 8), QuadTo 20 (- 20) 29 (- 8),
        QuadTo 20 (900719925474099 / 140737488355328) 11 (- 8), ClosePath],
       [MoveTo 11 (- (3602879701896397 / 281474976710656)),
        QuadTo 20 (- (1914029841632461 / 70368744177664)) 29 (- (3602879701896397 / 281474976710656)),
        QuadTo 20 (56294995342131 / 140737488355328) 11 (- (3602879701896397 / 281474976710656)),
        ClosePath],
       [MoveTo 20 (- 8), MoveBy (- (45 / 4)) 0, ArcBy (45 / 4) (45 / 4) 0 True False (45 / 2) 0,
        ArcBy (45 / 4) (45 / 4) 0 True False (- (45 / 2)) 0]]"
  by (simp add: all_emotions_def getEyePath_def Let_def eye_outline_width_def eye_outline_height_def
      eyeOffsetX_def eyeOffsetY_def eyeWidth_def eyeHeight_def eye_numbers)

lemma closed_eye_left:
  "map (\<lambda>e. getEyePath e True True) all_emotions =
     [[MoveTo (- (125 / 4)) (- 8), HorizTo (- (35 / 4))],
       [MoveTo (- 29) (- 8), HorizTo (- 11)],
       [MoveTo (- 29) (- 8), HorizTo (- 11)],
       [MoveTo (- 29) (- 8), HorizTo (- 11)],
       [MoveTo (- (125 / 4)) (- 8), HorizTo (- (35 / 4))]]"
  by (simp add: all_emotions_def getEyePath_def Let_def eye_outline_width_def eye_outline_height_def
      eyeOffsetX_def eyeOffsetY_def eyeWidth_def eyeHeight_def eye_numbers)

lemma closed_eye_right:
  "map (\<lambda>e. getEyePath e False True) all_emotions =
     [[MoveTo (35 / 4) (- 8), HorizTo (125 / 4)],
       [MoveTo 11 (- 8), HorizTo 29],
       [MoveTo 11 (- 8), HorizTo 29],
       [MoveTo 11 (- 8), HorizTo 29],
       [MoveTo (35 / 4) (- 8), HorizTo (125 / 4)]]"
  by (simp add: all_emotions_def getEyePath_def Let_def eye_outline_width_def eye_outline_height_def
      eyeOffsetX_def eyeOffsetY_def eyeWidth_def eyeHeight_def eye_numbers)

lemma eyebrows_open:
  "map (\<lambda>e. eyebrow_paths e False) all_emotions =
     [[], [], [],
      [[MoveTo (- (3954723422784717 / 140737488355328)) (- (3836503932566241 / 140737488355328)),
         LineTo (- (6699104445713613 / 562949953421312)) (- (3152519739159347 / 140737488355328))],
        [MoveTo (6699104445713613 / 562949953421312) (- (3152519739159347 / 140737488355328)),
         LineTo (3954723422784717 / 140737488355328) (- (3836503932566241 / 140737488355328))]],
      [[MoveTo (- (2230689190431949 / 70368744177664)) (- (1210342399855821 / 35184372088832)),
         QuadTo (- 20) (- (3079336245214577 / 70368744177664)) (- (4672484613396889 / 562949953421312)) (- (1210342399855821 / 35184372088832))],
        [MoveTo (4672484613396889 / 562949953421312) (- (1210342399855821 / 35184372088832)),
         QuadTo 20 (- (3079336245214577 / 70368744177664)) (2230689190431949 / 70368744177664) (- (1210342399855821 / 35184372088832))]]]"
  by (simp add: all_emotions_def eyebrow_paths_def getAngryEyebrowPath_def
      getSurprisedEyebrowPath_def Let_def eyeOffsetX_def eyeOffsetY_def eyeWidth_def
      eyeHeight_def eye_numbers)

lemma eyebrows_blinking: "eyebrow_paths e True = []"
  by (simp add: eyebrow_paths_def)

lemma shines_open:
  "map (\<lambda>e. eye_shines e False) all_emotions =
     [[((- (2308094809027379 / 140737488355328), - (3602879701896397 / 281474976710656)), 6079859496950169 / 2251799813685248),
       ((3321404725185741 / 140737488355328, - (3602879701896397 / 281474976710656)), 6079859496950169 / 2251799813685248)],
      [((- (2308094809027379 / 140737488355328), - (3602879701896397 / 281474976710656)), 6079859496950169 / 2251799813685248),
       ((3321404725185741 / 140737488355328, - (3602879701896397 / 281474976710656)), 6079859496950169 / 2251799813685248)],
      [((- (2308094809027379 / 140737488355328), - (2476979795053773 / 562949953421312)), 6079859496950169 / 2251799813685248),
       ((3321404725185741 / 140737488355328, - (2476979795053773 / 562949953421312)), 6079859496950169 / 2251799813685248)],
      [((- (2308094809027379 / 140737488355328), - (3602879701896397 / 281474976710656)), 6079859496950169 / 2251799813685248),
       ((3321404725185741 / 140737488355328, - (3602879701896397 / 281474976710656)), 6079859496950169 / 2251799813685248)],
      [((- 20, - (3602879701896397 / 281474976710656)), 7903817346035221 / 2251799813685248),
       ((20, - (3602879701896397 / 281474976710656)), 7903817346035221 / 2251799813685248)]]"
  by (simp add: all_emotions_def eye_shines_def getEyeShinePosition_def shine_offset_def
      getEyeShineSize_def Let_def eyeOffsetX_def eyeOffsetY_def eyeWidth_def eyeHeight_def
      eye_numbers)

lemma shines_blinking: "eye_shines e True = []"
  by (simp add: eye_shines_def)

lemma shine_offsets:
  "map shine_offset all_emotions =
     [(8106479329266893 / 2251799813685248, - (1351079888211149 / 281474976710656)),
      (8106479329266893 / 2251799813685248, - (1351079888211149 / 281474976710656)),
      (8106479329266893 / 2251799813685248, 2026619832316723 / 562949953421312),
      (8106479329266893 / 2251799813685248, - (1351079888211149 / 281474976710656)),
      (0, - (1351079888211149 / 281474976710656))]"
  by (simp add: all_emotions_def shine_offset_def Let_def eyeWidth_def eyeHeight_def
      eye_numbers)

lemma circle_open:
  "map (\<lambda>e. circle_outline (getEyePath e True False)) all_emotions
     = [None, None, None, None, Some (- 20, - 8, 45 / 4)]"
  "map (\<lambda>e. circle_outline (getEyePath e False False)) all_emotions
     = [None, None, None, None, Some (20, - 8, 45 / 4)]"
  using open_eye_left open_eye_right by (simp_all add: all_emotions_def)

lemma circle_blinking: "circle_outline (getEyePath e isLeft True) = None"
  by (simp add: getEyePath_def Let_def)

lemma outline_sizes:
  "map eye_outline_width [Neutral, Surprised, Happy, Sad, Angry]
     = [5 / 4 * eyeWidth, 5 / 4 * eyeWidth, eyeWidth, eyeWidth, eyeWidth]"
  "map eye_outline_height [Neutral, Surprised, Happy, Sad, Angry]
     = [5 / 4 * eyeHeight, 5 / 4 * eyeHeight, eyeHeight, eyeHeight, eyeHeight]"
  by (simp_all add: eye_outline_width_def eye_outline_height_def eyeWidth_def eyeHeight_def
      eye_numbers)

lemma shine_offset_snd:
  "snd (shine_offset e) =
     (if e = Sad then 2026619832316723 / 562949953421312
      else - (1351079888211149 / 281474976710656))"
  by (simp add: shine_offset_def Let_def eyeHeight_def eye_numbers)

lemma shine_position_snd:
  "snd (getEyeShinePosition e isLeft) =
     (if e = Sad then - (2476979795053773 / 562949953421312)
      else - (3602879701896397 / 281474976710656))"
proof -
  have "snd (getEyeShinePosition e isLeft) = fadd eyeOffsetY (snd (shine_offset e))"
    by (simp add: getEyeShinePosition_def Let_def split: prod.split)
  then show ?thesis by (simp add: shine_offset_snd eyeOffsetY_def eye_numbers)
qed

lemma shine_by_emotion:
  "map (\<lambda>e. 0 < snd (shine_offset e)) all_emotions = [False, False, True, False, False]"
  "map (\<lambda>e. snd (shine_offset e) < 0) all_emotions = [True, True, False, True, True]"
  "map (\<lambda>e. snd (getEyeShinePosition e True) < snd (getEyeShinePosition Sad True))
     [Neutral, Happy, Angry, Surprised] = [True, True, True, True]"
  "map (\<lambda>e. snd (getEyeShinePosition e False) < snd (getEyeShinePosition Sad False))
     [Neutral, Happy, Angry, Surprised] = [True, True, True, True]"
  by (simp_all add: all_emotions_def shine_offset_snd shine_position_snd)

subsection \<open>C8: eye geometry by emotion\<close>

text \<open>
  C8, as stated, fails while the avatar blinks: then no eyebrow path is rendered for angry
  and surprised either, the outline of the surprised eye is a flat line and not a circle,
  and no highlight is rendered at all.
\<close>

theorem eye_geometry_blink_counterexample:
  "eyebrow_paths Angry True = [] \<and> eyebrow_paths Surprised True = []
   \<and> getEyePath Surprised True True = [MoveTo (- (125 / 4)) (- 8), HorizTo (- (35 / 4))]
   \<and> circle_outline (getEyePath Surprised True True) = None
   \<and> eye_shines Sad True = []"
  using closed_eye_left
  by (simp add: eyebrows_blinking shines_blinking circle_blinking all_emotions_def)

text \<open>
  C8 (amended): while the avatar is not blinking, the eye geometry is a function of the
  emotion. The outlines of neutral and surprised are drawn from a width and a height 1.25
  times the width 18 and the height 24 from which those of happy, sad and angry are drawn:
  the paths of the left and of the right eye are the ones listed, in the order neutral,
  happy, sad, angry, surprised. Eyebrow paths, the listed ones, are rendered for angry and
  surprised and for no other emotion. The outline of the surprised eye is a circle around
  the eye position whose diameter is the smaller of its width and height, 22.5; no other
  outline is a circle. The highlights are the listed circles; the vertical offset of the
  highlight is positive for sad and negative for the four other emotions, so the highlight
  of sad lies lower (larger y) than that of every other emotion. While the avatar blinks,
  the outline is a flat line as wide as the size class of the emotion, and neither eyebrows
  nor highlights are rendered.
\<close>

theorem eye_geometry_by_emotion:
  "map eye_outline_width [Neutral, Surprised, Happy, Sad, Angry]
     = [5 / 4 * eyeWidth, 5 / 4 * eyeWidth, eyeWidth, eyeWidth, eyeWidth]
   \<and> map eye_outline_height [Neutral, Surprised, Happy, Sad, Angry]
     = [5 / 4 * eyeHeight, 5 / 4 * eyeHeight, eyeHeight, eyeHeight, eyeHeight]
   \<and> map (\<lambda>e. getEyePath e True False) all_emotions =
     [[MoveTo (- (125 / 4)) (- 14), QuadTo (- 20) (- 32) (- (35 / 4)) (- 14),
        QuadTo (- 20) (5 / 2) (- (125 / 4)) (- 14), ClosePath],
       [MoveTo (- 29) (- 8),
        QuadTo (- (3321404725185741 / 140737488355328)) (- (3152519739159347 / 140737488355328)) (- 20) (- (3602879701896397 / 281474976710656)),
        QuadTo (- (2308094809027379 / 140737488355328)) (- (3152519739159347 / 140737488355328)) (- 11) (- 8),
        LineTo (- 29) (- 8), ClosePath],
       [MoveTo (- 29) (- 8), QuadTo (- 20) (- 20) (- 11) (- 8),
        QuadTo (- 20) (900719925474099 / 140737488355328) (- 29) (- 8), ClosePath],
       [MoveTo (- 29) (- (3602879701896397 / 281474976710656)),
        QuadTo (- 20) (- (1914029841632461 / 70368744177664)) (- 11) (- (3602879701896397 / 281474976710656)),
        QuadTo (- 20) (56294995342131 / 140737488355328) (- 29) (- (3602879701896397 / 281474976710656)),
        ClosePath],
       [MoveTo (- 20) (- 8), MoveBy (- (45 / 4)) 0,
        ArcBy (45 / 4) (45 / 4) 0 True False (45 / 2) 0,
        ArcBy (45 / 4) (45 / 4) 0 True False (- (45 / 2)) 0]]
   \<and> map (\<lambda>e. getEyePath e False False) all_emotions =
     [[MoveTo (35 / 4) (- 14), QuadTo 20 (- 32) (125 / 4) (- 14),
        QuadTo 20 (5 / 2) (35 / 4) (- 14), ClosePath],
       [MoveTo 11 (- 8),
        QuadTo (2308094809027379 / 140737488355328) (- (3152519739159347 / 140737488355328)) 20 (- (3602879701896397 / 281474976710656)),
        QuadTo (3321404725185741 / 140737488355328) (- (3152519739159347 / 140737488355328)) 29 (- 8),
        LineTo 11 (- 8), ClosePath],
       [MoveTo 11 (- 8), QuadTo 20 (- 20) 29 (- 8),
        QuadTo 20 (900719925474099 / 140737488355328) 11 (- 8), ClosePath],
       [MoveTo 11 (- (3602879701896397 / 281474976710656)),
        QuadTo 20 (- (1914029841632461 / 70368744177664)) 29 (- (3602879701896397 / 281474976710656)),
        QuadTo 20 (56294995342131 / 140737488355328) 11 (- (3602879701896397 / 281474976710656)),
        ClosePath],
       [MoveTo 20 (- 8), MoveBy (- (45 / 4)) 0, ArcBy (45 / 4) (45 / 4) 0 True False (45 / 2) 0,
        ArcBy (45 / 4) (45 / 4) 0 True False (- (45 / 2)) 0]]
   \<and> map (\<lambda>e. eyebrow_paths e False) all_emotions =
     [[], [], [],
      [[MoveTo (- (3954723422784717 / 140737488355328)) (- (3836503932566241 / 140737488355328)),
         LineTo (- (6699104445713613 / 562949953421312)) (- (3152519739159347 / 140737488355328))],
        [MoveTo (6699104445713613 / 562949953421312) (- (3152519739159347 / 140737488355328)),
         LineTo (3954723422784717 / 140737488355328) (- (3836503932566241 / 140737488355328))]],
      [[MoveTo (- (2230689190431949 / 70368744177664)) (- (1210342399855821 / 35184372088832)),
         QuadTo (- 20) (- (3079336245214577 / 70368744177664)) (- (4672484613396889 / 562949953421312)) (- (1210342399855821 / 35184372088832))],
        [MoveTo (4672484613396889 / 562949953421312) (- (1210342399855821 / 35184372088832)),
         QuadTo 20 (- (3079336245214577 / 70368744177664)) (2230689190431949 / 70368744177664) (- (1210342399855821 / 35184372088832))]]]
   \<and> map (\<lambda>e. circle_outline (getEyePath e True False)) all_emotions
     = [None, None, None, None, Some (- 20, - 8, 45 / 4)]
   \<and> map (\<lambda>e. circle_outline (getEyePath e False False)) all_emotions
     = [None, None, None, None, Some (20, - 8, 45 / 4)]
   \<and> map (\<lambda>e. eye_shines e False) all_emotions =
     [[((- (2308094809027379 / 140737488355328), - (3602879701896397 / 281474976710656)), 6079859496950169 / 2251799813685248),
       ((3321404725185741 / 140737488355328, - (3602879701896397 / 281474976710656)), 6079859496950169 / 2251799813685248)],
      [((- (2308094809027379 / 140737488355328), - (3602879701896397 / 281474976710656)), 6079859496950169 / 2251799813685248),
       ((3321404725185741 / 140737488355328, - (3602879701896397 / 281474976710656)), 6079859496950169 / 2251799813685248)],
      [((- (2308094809027379 / 140737488355328), - (2476979795053773 / 562949953421312)), 6079859496950169 / 2251799813685248),
       ((3321404725185741 / 140737488355328, - (2476979795053773 / 562949953421312)), 6079859496950169 / 2251799813685248)],
      [((- (2308094809027379 / 140737488355328), - (3602879701896397 / 281474976710656)), 6079859496950169 / 2251799813685248),
       ((3321404725185741 / 140737488355328, - (3602879701896397 / 281474976710656)), 6079859496950169 / 2251799813685248)],
      [((- 20, - (3602879701896397 / 281474976710656)), 7903817346035221 / 2251799813685248),
       ((20, - (3602879701896397 / 281474976710656)), 7903817346035221 / 2251799813685248)]]
   \<and> map (\<lambda>e. 0 < snd (shine_offset e)) all_emotions = [False, False, True, False, False]
   \<and> map (\<lambda>e. snd (shine_offset e) < 0) all_emotions = [True, True, False, True, True]
   \<and> map (\<lambda>e. snd (getEyeShinePosition e True) < snd (getEyeShinePosition Sad True))
       [Neutral, Happy, Angry, Surprised] = [True, True, True, True]
   \<and> map (\<lambda>e. snd (getEyeShinePosition e False) < snd (getEyeShinePosition Sad False))
       [Neutral, Happy, Angry, Surprised] = [True, True, True, True]
   \<and> map (\<lambda>e. getEyePath e True True) all_emotions =
     [[MoveTo (- (125 / 4)) (- 8), HorizTo (- (35 / 4))],
       [MoveTo (- 29) (- 8), HorizTo (- 11)],
       [MoveTo (- 29) (- 8), HorizTo (- 11)],
       [MoveTo (- 29) (- 8), HorizTo (- 11)],
       [MoveTo (- (125 / 4)) (- 8), HorizTo (- (35 / 4))]]
   \<and> map (\<lambda>e. getEyePath e False True) all_emotions =
     [[MoveTo (35 / 4) (- 8), HorizTo (125 / 4)],
       [MoveTo 11 (- 8), HorizTo 29],
       [MoveTo 11 (- 8), HorizTo 29],
       [MoveTo 11 (- 8), HorizTo 29],
       [MoveTo (35 / 4) (- 8), HorizTo (125 / 4)]]
   \<and> eyebrow_paths e True = []
   \<and> eye_shines e True = []"
  by (intro conjI)
    (rule outline_sizes open_eye_left open_eye_right eyebrows_open circle_open shines_open
      shine_by_emotion closed_eye_left closed_eye_right eyebrows_blinking shines_blinking)+

end
